theory Spec2Isabelle
  imports Complex_Main
begin

section \<open>Data model\<close>

text \<open>
  The quiz component (\<^verbatim>\<open>QuizInterface\<close>) and the three edge functions
  (\<^verbatim>\<open>generate-question\<close>, \<^verbatim>\<open>grade-answer\<close>, \<^verbatim>\<open>evolve-quiz\<close>) work on
  the tables of the migration: \<^verbatim>\<open>questions\<close>, \<^verbatim>\<open>quiz_sessions\<close>, \<^verbatim>\<open>user_answers\<close>
  and \<^verbatim>\<open>topics\<close>. The two enums of the schema are datatypes.
\<close>

datatype difficulty = Easy | Medium | Hard

datatype question_type = Mcq | Fill_blank | Short_answer | Long_answer | True_false

text \<open>
  A value produced by \<^verbatim>\<open>JSON.parse\<close>. An object is the list of its own properties;
  a missing property reads as \<^verbatim>\<open>undefined\<close>, which is \<open>None\<close> below.
\<close>

datatype json =
    JNull
  | JBool bool
  | JNumber real
  | JString string
  | JArray "json list"
  | JObject "(string \<times> json) list"

text \<open>
  \<^verbatim>\<open>interface Question\<close>. A row of \<^verbatim>\<open>questions\<close> carries the same fields plus the
  topic it belongs to; its \<^verbatim>\<open>options\<close> column holds the text written by
  \<^verbatim>\<open>JSON.stringify\<close>, which the component parses back into a list.
\<close>

record Question =
  question_id :: string
  question_text :: string
  question_type :: question_type
  question_difficulty :: difficulty
  correct_answer :: string
  options :: "string list option"
  rationale :: "string option"

record question_row =
  row_id :: string
  row_topic_id :: string
  row_question_text :: string
  row_question_type :: question_type
  row_difficulty :: difficulty
  row_correct_answer :: string
  row_options :: "string option"
  row_rationale :: "string option"

text \<open>
  \<^verbatim>\<open>interface QuizSession\<close>, with the further columns of \<^verbatim>\<open>quiz_sessions\<close> that the
  code writes. The component keeps the row returned by the insert as its session object,
  so one record serves as the stored row and as the component's copy.
\<close>

record QuizSession =
  session_id :: string
  user_id :: string
  topic_id :: string
  current_difficulty :: difficulty
  total_questions :: int
  correct_answers :: int
  is_active :: bool
  focus_area :: "json option"

record user_answer =
  answer_session_id :: string
  answer_question_id :: string
  answer_text :: string
  is_correct :: bool
  ai_feedback :: string

record topic =
  topic_key :: string
  title :: string
  description :: "string option"

record database =
  questions :: "question_row list"
  quiz_sessions :: "QuizSession list"
  user_answers :: "user_answer list"
  topics :: "topic list"

section \<open>Strings\<close>

text \<open>
  A JavaScript string is modelled by a \<open>string\<close> whose characters are the code units
  below 256 (ASCII and Latin-1). On these, \<^verbatim>\<open>toLowerCase\<close> works unit by unit: it adds
  32 to \<^verbatim>\<open>A\<close>..\<^verbatim>\<open>Z\<close> and to U+00C0..U+00DE other than the multiplication sign U+00D7.
  \<^verbatim>\<open>trim\<close> removes the white space and line terminators of ECMAScript from both ends;
  below 256 these are TAB, LF, VT, FF, CR, SPACE and NO-BREAK SPACE.
\<close>

definition isWhiteSpace :: "char \<Rightarrow> bool" where
  "isWhiteSpace c = ((of_char c :: nat) \<in> {9, 10, 11, 12, 13, 32, 160})"

definition toLowerChar :: "char \<Rightarrow> char" where
  "toLowerChar c =
     (let n = (of_char c :: nat)
      in if (65 \<le> n \<and> n \<le> 90) \<or> (192 \<le> n \<and> n \<le> 222 \<and> n \<noteq> 215)
         then char_of (n + 32) else c)"

definition toLowerCase :: "string \<Rightarrow> string" where
  "toLowerCase s = map toLowerChar s"

definition trim :: "string \<Rightarrow> string" where
  "trim s = rev (dropWhile isWhiteSpace (rev (dropWhile isWhiteSpace s)))"

section \<open>The quiz component\<close>

subsection \<open>Grading and difficulty adaptation\<close>

text \<open>
  \<^verbatim>\<open>const isCorrect = userAnswer.toLowerCase().trim() ===
    currentQuestion.correct_answer.toLowerCase().trim();\<close>
\<close>

definition isCorrect :: "string \<Rightarrow> string \<Rightarrow> bool" where
  "isCorrect userAnswer correctAnswer =
     (trim (toLowerCase userAnswer) = trim (toLowerCase correctAnswer))"

text \<open>
  \<^verbatim>\<open>const accuracy = newCorrectAnswers / newTotalQuestions;\<close> The quotient of the two
  counters is taken as the exact real number. The source computes it in double precision
  and compares it with the literals 0.7 and 0.5; for counters of any size a session can
  reach (below \<open>10^15\<close>) the comparisons agree with the exact ones, since a quotient
  that differs from 7/10 differs from it by at least \<open>1 / (10 * total)\<close>.
\<close>

definition accuracy :: "int \<Rightarrow> int \<Rightarrow> real" where
  "accuracy newCorrectAnswers newTotalQuestions =
     real_of_int newCorrectAnswers / real_of_int newTotalQuestions"

text \<open>
  The block \<^verbatim>\<open>if (newTotalQuestions >= 5) { ... }\<close> of \<^verbatim>\<open>submitAnswer\<close>, up to the
  value of \<^verbatim>\<open>newDifficulty\<close>; below five answers the difficulty is left as it is.
\<close>

definition adaptDifficulty :: "difficulty \<Rightarrow> int \<Rightarrow> int \<Rightarrow> difficulty" where
  "adaptDifficulty current newTotalQuestions newCorrectAnswers =
     (if newTotalQuestions \<ge> 5 then
        (if accuracy newCorrectAnswers newTotalQuestions > 0.7 \<and> current \<noteq> Hard
         then (if current = Easy then Medium else Hard)
         else if accuracy newCorrectAnswers newTotalQuestions < 0.5 \<and> current \<noteq> Easy
         then (if current = Hard then Medium else Easy)
         else current)
      else current)"

subsection \<open>State of the component and of its surroundings\<close>

text \<open>
  The React state of \<^verbatim>\<open>QuizInterface\<close>. A handler reads the values its render
  captured and replaces them through the setters.
\<close>

record component =
  session :: "QuizSession option"
  currentQuestion :: "Question option"
  userAnswer :: string
  isAnswering :: bool
  showFeedback :: bool
  lastAnswerCorrect :: bool
  aiFeedback :: string
  isLoading :: bool

text \<open>A request sent through \<^verbatim>\<open>supabase.functions.invoke\<close>, with its body.\<close>

datatype invocation =
    Invoke_generate_question string difficulty question_type
  | Invoke_grade_answer string string string question_type

record toast =
  toast_title :: string
  toast_description :: string

text \<open>
  Everything a handler of the component can read or change: the tables, the React state,
  the toasts shown to the user, the lines written with \<^verbatim>\<open>console.error\<close>, and the
  requests sent to the edge functions (oldest first).
\<close>

record world =
  store :: database
  view :: component
  toasts :: "toast list"
  console :: "string list"
  invoked :: "invocation list"

text \<open>
  What \<^verbatim>\<open>functions.invoke('grade-answer')\<close> gives back: a data object with or without
  a \<^verbatim>\<open>feedback\<close> field, no data, or an exception.
\<close>

datatype grade_reply = Grade_data "string option" | Grade_no_data | Grade_throws string

text \<open>
  What \<^verbatim>\<open>functions.invoke('generate-question')\<close> gives back: a data object with or
  without a \<^verbatim>\<open>question\<close>, an error object, or an exception.
\<close>

datatype generate_reply =
    Generate_data "Question option"
  | Generate_error string
  | Generate_throws string

text \<open>
  The three writes of \<^verbatim>\<open>submitAnswer\<close> are awaited and their results dropped. Each
  flag says whether the storage service carried the write out.
\<close>

record write_outcomes =
  answer_saved :: bool
  counters_saved :: bool
  difficulty_saved :: bool

text \<open>\<^verbatim>\<open>.update(...).eq('id', sid)\<close> on \<^verbatim>\<open>quiz_sessions\<close>.\<close>

definition update_session ::
    "string \<Rightarrow> (QuizSession \<Rightarrow> QuizSession) \<Rightarrow> database \<Rightarrow> database" where
  "update_session sid f d =
     d\<lparr>quiz_sessions := map (\<lambda>r. if session_id r = sid then f r else r) (quiz_sessions d)\<rparr>"

subsection \<open>submitAnswer\<close>

text \<open>\<^verbatim>\<open>feedback = feedbackData?.feedback || ''\<close>; an exception leaves it empty.\<close>

fun feedback_of :: "grade_reply \<Rightarrow> string" where
  "feedback_of (Grade_data (Some f)) = f"
| "feedback_of (Grade_data None) = []"
| "feedback_of Grade_no_data = []"
| "feedback_of (Grade_throws e) = []"

text \<open>
  \<^verbatim>\<open>if (currentQuestion.question_type !== 'mcq' &&
    currentQuestion.question_type !== 'true_false')\<close>
\<close>

definition asks_feedback :: "Question \<Rightarrow> bool" where
  "asks_feedback q = (question_type q \<noteq> Mcq \<and> question_type q \<noteq> True_false)"

text \<open>
  \<^verbatim>\<open>submitAnswer\<close>. The session \<open>s\<close> is the object captured by the render in which the
  handler was created. The first \<^verbatim>\<open>setSession\<close> stores \<open>s\<close> with the new counters;
  when the difficulty changes, the second \<^verbatim>\<open>setSession({ ...session, current_difficulty })\<close>
  spreads the same captured \<open>s\<close> again and replaces the state set by the first.
\<close>

definition submitAnswer :: "write_outcomes \<Rightarrow> grade_reply \<Rightarrow> world \<Rightarrow> world" where
  "submitAnswer oc reply w =
     (case (currentQuestion (view w), session (view w)) of
        (Some q, Some s) \<Rightarrow>
          if trim (userAnswer (view w)) = [] then w
          else
            let ua = userAnswer (view w);
                correct = isCorrect ua (correct_answer q);
                feedback = (if asks_feedback q then feedback_of reply else []);
                requests =
                  (if asks_feedback q
                   then [Invoke_grade_answer (question_text q) ua (correct_answer q)
                           (question_type q)]
                   else []);
                logged =
                  (case reply of
                     Grade_throws e \<Rightarrow>
                       if asks_feedback q then [''Error getting AI feedback: '' @ e] else []
                   | _ \<Rightarrow> []);
                d1 =
                  (if answer_saved oc
                   then (store w)\<lparr>user_answers := user_answers (store w) @
                          [\<lparr>answer_session_id = session_id s,
                            answer_question_id = question_id q,
                            answer_text = ua,
                            is_correct = correct,
                            ai_feedback = feedback\<rparr>]\<rparr>
                   else store w);
                newTotalQuestions = total_questions s + 1;
                newCorrectAnswers = correct_answers s + (if correct then 1 else 0);
                d2 =
                  (if counters_saved oc
                   then update_session (session_id s)
                          (\<lambda>r. r\<lparr>total_questions := newTotalQuestions,
                                  correct_answers := newCorrectAnswers\<rparr>) d1
                   else d1);
                s1 = s\<lparr>total_questions := newTotalQuestions,
                        correct_answers := newCorrectAnswers\<rparr>;
                newDifficulty =
                  adaptDifficulty (current_difficulty s) newTotalQuestions newCorrectAnswers;
                d3 =
                  (if newDifficulty \<noteq> current_difficulty s \<and> difficulty_saved oc
                   then update_session (session_id s)
                          (\<lambda>r. r\<lparr>current_difficulty := newDifficulty\<rparr>) d2
                   else d2);
                s2 =
                  (if newDifficulty \<noteq> current_difficulty s
                   then s\<lparr>current_difficulty := newDifficulty\<rparr>
                   else s1)
            in w\<lparr>store := d3,
                 view := (view w)\<lparr>session := Some s2,
                                   lastAnswerCorrect := correct,
                                   aiFeedback := feedback,
                                   showFeedback := True,
                                   isAnswering := False\<rparr>,
                 console := console w @ logged,
                 invoked := invoked w @ requests\<rparr>
      | _ \<Rightarrow> w)"

subsection \<open>Loading and generating questions\<close>

text \<open>
  What the component needs from outside to load a question: the error of the
  \<^verbatim>\<open>questions\<close> query when it fails, the reply of the \<^verbatim>\<open>generate-question\<close>
  function, and \<^verbatim>\<open>JSON.parse\<close> on the text of the \<^verbatim>\<open>options\<close> column (\<open>Inl\<close>
  with the message when it throws).
\<close>

record loading =
  read_error :: "string option"
  generated :: generate_reply
  parse_options :: "string \<Rightarrow> string + string list"

text \<open>
  \<^verbatim>\<open>{ ...question, options: question.options ? JSON.parse(question.options) : undefined }\<close>;
  \<open>Inl\<close> when \<^verbatim>\<open>JSON.parse\<close> throws. An empty text is falsy.
\<close>

definition question_of_row ::
    "(string \<Rightarrow> string + string list) \<Rightarrow> question_row \<Rightarrow> string + Question" where
  "question_of_row parse r =
     (let q = \<lparr>question_id = row_id r,
                question_text = row_question_text r,
                question_type = row_question_type r,
                question_difficulty = row_difficulty r,
                correct_answer = row_correct_answer r,
                options = None,
                rationale = row_rationale r\<rparr>
      in case row_options r of
           None \<Rightarrow> Inr q
         | Some txt \<Rightarrow>
             if txt = [] then Inr q
             else (case parse txt of
                     Inl e \<Rightarrow> Inl e
                   | Inr os \<Rightarrow> Inr (q\<lparr>options := Some os\<rparr>)))"

text \<open>
  \<^verbatim>\<open>generateNewQuestion\<close>: the request always asks for an \<^verbatim>\<open>mcq\<close> question. An error
  or an exception is logged and answered with the fixed toast.
\<close>

definition generateNewQuestion :: "string \<Rightarrow> loading \<Rightarrow> difficulty \<Rightarrow> world \<Rightarrow> world" where
  "generateNewQuestion topicId env difficulty w =
     (let w1 = w\<lparr>invoked := invoked w @ [Invoke_generate_question topicId difficulty Mcq]\<rparr>;
          failed = (\<lambda>e. w1\<lparr>console := console w1 @ [''Error generating question: '' @ e],
                          toasts := toasts w1 @
                            [\<lparr>toast_title = ''Error'',
                              toast_description = ''Failed to load question''\<rparr>]\<rparr>)
      in case generated env of
           Generate_data (Some q) \<Rightarrow> w1\<lparr>view := (view w1)\<lparr>currentQuestion := Some q\<rparr>\<rparr>
         | Generate_data None \<Rightarrow> w1
         | Generate_error e \<Rightarrow> failed e
         | Generate_throws e \<Rightarrow> failed e)"

text \<open>
  The \<^verbatim>\<open>questions\<close> query of \<^verbatim>\<open>loadNextQuestion\<close>:
  \<^verbatim>\<open>.eq('topic_id', topicId).eq('difficulty', difficulty).limit(1)\<close>.
\<close>

definition matching_questions :: "string \<Rightarrow> difficulty \<Rightarrow> database \<Rightarrow> question_row list" where
  "matching_questions topicId difficulty d =
     filter (\<lambda>r. row_topic_id r = topicId \<and> row_difficulty r = difficulty) (questions d)"

text \<open>
  \<^verbatim>\<open>loadNextQuestion\<close>. A query error and an exception of \<^verbatim>\<open>JSON.parse\<close> both reach
  the \<^verbatim>\<open>catch\<close> block, which logs and falls back to generating a question.
\<close>

definition loadNextQuestion :: "string \<Rightarrow> loading \<Rightarrow> difficulty \<Rightarrow> world \<Rightarrow> world" where
  "loadNextQuestion topicId env difficulty w =
     (let fallback = (\<lambda>e. generateNewQuestion topicId env difficulty
                         (w\<lparr>console := console w @ [''Error loading question: '' @ e]\<rparr>))
      in case read_error env of
           Some e \<Rightarrow> fallback e
         | None \<Rightarrow>
             (case take 1 (matching_questions topicId difficulty (store w)) of
                [] \<Rightarrow> generateNewQuestion topicId env difficulty w
              | r # _ \<Rightarrow>
                  (case question_of_row (parse_options env) r of
                     Inr q \<Rightarrow> w\<lparr>view := (view w)\<lparr>currentQuestion := Some q\<rparr>\<rparr>
                   | Inl e \<Rightarrow> fallback e)))"

text \<open>\<^verbatim>\<open>nextQuestion\<close>, and typing an answer (\<^verbatim>\<open>setUserAnswer\<close>).\<close>

definition nextQuestion :: "string \<Rightarrow> loading \<Rightarrow> world \<Rightarrow> world" where
  "nextQuestion topicId env w =
     (let w1 = w\<lparr>view := (view w)\<lparr>showFeedback := False, userAnswer := [], aiFeedback := []\<rparr>\<rparr>
      in case session (view w) of
           Some s \<Rightarrow> loadNextQuestion topicId env (current_difficulty s) w1
         | None \<Rightarrow> w1)"

definition setUserAnswer :: "string \<Rightarrow> world \<Rightarrow> world" where
  "setUserAnswer a w = w\<lparr>view := (view w)\<lparr>userAnswer := a\<rparr>\<rparr>"

subsection \<open>initializeQuiz\<close>

text \<open>
  \<^verbatim>\<open>initializeQuiz\<close>. \<open>profile\<close> is the id of the user's profile, if there is one.
  \<open>inserted\<close> is the outcome of the insert into \<^verbatim>\<open>quiz_sessions\<close>: the error of the
  storage service, or the id it gave the new row. The row returned by
  \<^verbatim>\<open>.select().single()\<close> has the three inserted columns and the defaults of the schema
  for the others.
\<close>

definition initializeQuiz ::
    "string \<Rightarrow> loading \<Rightarrow> string option \<Rightarrow> string + string \<Rightarrow> world \<Rightarrow> world" where
  "initializeQuiz topicId env profile inserted w =
     (let shown = (\<lambda>e. w\<lparr>toasts := toasts w @
                            [\<lparr>toast_title = ''Error'', toast_description = e\<rparr>],
                        view := (view w)\<lparr>isLoading := False\<rparr>\<rparr>)
      in case profile of
           None \<Rightarrow> shown ''Profile not found''
         | Some pid \<Rightarrow>
             (case inserted of
                Inl e \<Rightarrow> shown e
              | Inr new_id \<Rightarrow>
                  let sessionData =
                        \<lparr>session_id = new_id, user_id = pid, topic_id = topicId,
                         current_difficulty = Medium, total_questions = 0,
                         correct_answers = 0, is_active = True, focus_area = None\<rparr>;
                      w1 = w\<lparr>store := (store w)\<lparr>quiz_sessions :=
                                          quiz_sessions (store w) @ [sessionData]\<rparr>,
                             view := (view w)\<lparr>session := Some sessionData\<rparr>\<rparr>;
                      w2 = loadNextQuestion topicId env (current_difficulty sessionData) w1
                  in w2\<lparr>view := (view w2)\<lparr>isLoading := False\<rparr>\<rparr>))"

section \<open>The edge functions\<close>

subsection \<open>Calling the text-generation service\<close>

text \<open>
  The outcome of the \<^verbatim>\<open>fetch\<close> to the generation service: an exception with its
  message, a response that is not \<^verbatim>\<open>ok\<close> with \<^verbatim>\<open>data.error?.message\<close>, or an
  \<^verbatim>\<open>ok\<close> response with \<^verbatim>\<open>data.candidates?.[0]?.content?.parts?.[0]?.text\<close>.
\<close>

datatype gemini_reply =
    Gemini_throws string
  | Gemini_not_ok "string option"
  | Gemini_ok "string option"

text \<open>
  What both JSON-producing functions read from their environment: the API key, the reply
  of the generation service, and \<^verbatim>\<open>JSON.parse\<close>. \<^verbatim>\<open>JSON.parse\<close> is only applied to a
  text that starts with an opening brace, where it throws (\<open>Inl\<close>, with the message) or
  returns an object (\<open>Inr\<close>, with its properties, each key once).
\<close>

record services =
  api_key :: "string option"
  gemini :: gemini_reply
  JSON_parse :: "string \<Rightarrow> string + (string \<times> json) list"

text \<open>\<^verbatim>\<open>if (!apiKey)\<close>: a missing or empty key.\<close>

definition no_key :: "string option \<Rightarrow> bool" where
  "no_key k = (case k of None \<Rightarrow> True | Some t \<Rightarrow> t = [])"

text \<open>
  From the \<^verbatim>\<open>fetch\<close> to \<^verbatim>\<open>generatedText\<close>, with the errors thrown on the way.
\<close>

definition generated_text :: "gemini_reply \<Rightarrow> string + string" where
  "generated_text reply =
     (case reply of
        Gemini_throws e \<Rightarrow> Inl e
      | Gemini_not_ok m \<Rightarrow>
          Inl (''Gemini API error: '' @
               (case m of None \<Rightarrow> ''Unknown error''
                | Some t \<Rightarrow> if t = [] then ''Unknown error'' else t))
      | Gemini_ok None \<Rightarrow> Inl ''No content generated''
      | Gemini_ok (Some t) \<Rightarrow> if t = [] then Inl ''No content generated'' else Inr t)"

text \<open>
  \<^verbatim>\<open>generatedText.match(/\{[\s\S]*\}/)\<close>: the match starts at the first opening brace
  that has a closing brace after it, which is the first opening brace of the text if any
  is, and the greedy star extends it to the last closing brace of the text.
\<close>

definition extractJson :: "string \<Rightarrow> string option" where
  "extractJson generatedText =
     (case dropWhile (\<lambda>c. c \<noteq> CHR ''{'') generatedText of
        [] \<Rightarrow> None
      | c # rest \<Rightarrow>
          if CHR ''}'' \<in> set rest
          then Some (c # rev (dropWhile (\<lambda>c. c \<noteq> CHR ''}'') (rev rest)))
          else None)"

text \<open>
  The steps that \<^verbatim>\<open>generate-question\<close> and \<^verbatim>\<open>evolve-quiz\<close> share word for word:
  from the \<^verbatim>\<open>fetch\<close> to the value of \<^verbatim>\<open>JSON.parse(jsonMatch[0])\<close>, with the message
  of the error thrown on the way.
\<close>

definition parse_reply :: "'a services_scheme \<Rightarrow> string + (string \<times> json) list" where
  "parse_reply env =
     (case generated_text (gemini env) of
        Inl e \<Rightarrow> Inl e
      | Inr generatedText \<Rightarrow>
          (case extractJson generatedText of
             None \<Rightarrow> Inl ''Invalid JSON format in response''
           | Some jsonMatch \<Rightarrow> JSON_parse env jsonMatch))"

text \<open>Truthiness of a property of a parsed object; \<open>None\<close> is \<^verbatim>\<open>undefined\<close>.\<close>

fun truthy :: "json option \<Rightarrow> bool" where
  "truthy None = False"
| "truthy (Some JNull) = False"
| "truthy (Some (JBool b)) = b"
| "truthy (Some (JNumber x)) = (x \<noteq> 0)"
| "truthy (Some (JString t)) = (t \<noteq> [])"
| "truthy (Some (JArray _)) = True"
| "truthy (Some (JObject _)) = True"

text \<open>\<^verbatim>\<open>.single()\<close>: the row when the query has exactly one.\<close>

fun single :: "'a list \<Rightarrow> 'a option" where
  "single [x] = Some x"
| "single _ = None"

subsection \<open>generate-question\<close>

text \<open>The record given to the insert into \<^verbatim>\<open>questions\<close>, as read off the parsed object.\<close>

record question_insert =
  ins_topic_id :: string
  ins_question_text :: "json option"
  ins_question_type :: "json option"
  ins_difficulty :: "json option"
  ins_correct_answer :: "json option"
  ins_options :: "json option"
  ins_rationale :: "json option"

text \<open>The \<^verbatim>\<open>question\<close> object of the response.\<close>

record generated_question =
  gen_id :: string
  gen_question_text :: "json option"
  gen_question_type :: "json option"
  gen_difficulty :: "json option"
  gen_correct_answer :: "json option"
  gen_options :: "json option"
  gen_rationale :: "json option"

text \<open>
  The values interpolated into the prompt template. \<open>prompt_existing\<close> is
  \<^verbatim>\<open>existingQuestionsText\<close>.
\<close>

record prompt =
  prompt_difficulty :: difficulty
  prompt_questionType :: question_type
  prompt_title :: string
  prompt_description :: string
  prompt_existing :: string

text \<open>
  The further surroundings of \<^verbatim>\<open>generate-question\<close>: whether the query for existing
  questions returns data, what the storage service does with an insert (an error, or the
  stored row), and the value of \<^verbatim>\<open>Math.random().toString(36).substr(2, 9)\<close>.
\<close>

record generation = services +
  existing_readable :: bool
  save :: "question_insert \<Rightarrow> string + question_row"
  random_id :: string

record generate_outcome =
  response :: "string + generated_question"
  tables_after :: database
  asked :: "prompt option"
  logged :: "string list"

text \<open>\<^verbatim>\<open>.eq('topic_id', topicId).limit(5)\<close> on \<^verbatim>\<open>questions\<close>.\<close>

definition existing_questions :: "string \<Rightarrow> database \<Rightarrow> question_row list" where
  "existing_questions topicId d =
     take 5 (filter (\<lambda>r. row_topic_id r = topicId) (questions d))"

fun join :: "string \<Rightarrow> string list \<Rightarrow> string" where
  "join sep [] = []"
| "join sep [x] = x"
| "join sep (x # y # ys) = x @ sep @ join sep (y # ys)"

text \<open>
  \<^verbatim>\<open>existingQuestions.map(q => `Q: ${q.question_text}\nA: ${q.correct_answer}`).join('\n\n')\<close>
\<close>

definition existingQuestionsText :: "question_row list \<Rightarrow> string" where
  "existingQuestionsText qs =
     join [CHR 0x0A, CHR 0x0A]
       (map (\<lambda>q. ''Q: '' @ row_question_text q @ [CHR 0x0A] @ ''A: '' @ row_correct_answer q) qs)"

text \<open>
  The part of the handler after \<^verbatim>\<open>JSON.parse\<close>: the insert into \<^verbatim>\<open>questions\<close> and
  the response. \<open>question_payload\<close> is the object given to \<^verbatim>\<open>.insert\<close>, apart from
  \<^verbatim>\<open>created_by: null\<close>; its \<open>ins_options\<close> is the value that is stringified.
  \<open>storage\<close> is the storage service's treatment of the insert and \<open>random\<close> the
  random id. A failed insert is logged and the question is returned all the same, with
  the random id (\<^verbatim>\<open>savedQuestion?.id || Math.random()...\<close>).
\<close>

definition question_payload :: "string \<Rightarrow> (string \<times> json) list \<Rightarrow> question_insert" where
  "question_payload topicId questionData =
     (let field = map_of questionData
      in \<lparr>ins_topic_id = topicId,
          ins_question_text = field ''question_text'',
          ins_question_type = field ''question_type'',
          ins_difficulty = field ''difficulty'',
          ins_correct_answer = field ''correct_answer'',
          ins_options = (if truthy (field ''options'') then field ''options'' else None),
          ins_rationale = field ''rationale''\<rparr>)"

definition save_generated ::
    "(question_insert \<Rightarrow> string + question_row) \<Rightarrow> string \<Rightarrow> string \<Rightarrow> prompt \<Rightarrow>
     (string \<times> json) list \<Rightarrow> database \<Rightarrow> generate_outcome" where
  "save_generated storage random topicId p questionData d =
     (let field = map_of questionData;
          payload = question_payload topicId questionData;
          question = (\<lambda>i.
            \<lparr>gen_id = i,
             gen_question_text = field ''question_text'',
             gen_question_type = field ''question_type'',
             gen_difficulty = field ''difficulty'',
             gen_correct_answer = field ''correct_answer'',
             gen_options = field ''options'',
             gen_rationale = field ''rationale''\<rparr>)
      in case storage payload of
           Inl saveError \<Rightarrow>
             \<lparr>response = Inr (question random), tables_after = d, asked = Some p,
              logged = [''Error saving question: '' @ saveError]\<rparr>
         | Inr savedQuestion \<Rightarrow>
             \<lparr>response =
                Inr (question (if row_id savedQuestion = [] then random
                               else row_id savedQuestion)),
              tables_after = d\<lparr>questions := questions d @ [savedQuestion]\<rparr>,
              asked = Some p, logged = []\<rparr>)"

text \<open>
  The handler of \<^verbatim>\<open>generate-question\<close> for a request \<open>(topicId, difficulty,
  questionType)\<close>. Every \<^verbatim>\<open>throw\<close> ends in the \<^verbatim>\<open>catch\<close> block: status 500 with
  the message, and nothing written.
\<close>

definition generate_question ::
    "generation \<Rightarrow> string \<Rightarrow> difficulty \<Rightarrow> question_type \<Rightarrow> database \<Rightarrow> generate_outcome" where
  "generate_question env topicId difficulty questionType d =
     (let fail = (\<lambda>e p. \<lparr>response = Inl e, tables_after = d, asked = p,
                          logged = [''Error in generate-question function: '' @ e]\<rparr>)
      in case single (filter (\<lambda>t. topic_key t = topicId) (topics d)) of
           None \<Rightarrow> fail ''Topic not found'' None
         | Some topic \<Rightarrow>
             if no_key (api_key env) then fail ''Gemini API key not found'' None
             else
               let existingQuestions =
                     (if existing_readable env then existing_questions topicId d else []);
                   p = \<lparr>prompt_difficulty = difficulty,
                        prompt_questionType = questionType,
                        prompt_title = title topic,
                        prompt_description =
                          (case description topic of None \<Rightarrow> [] | Some t \<Rightarrow> t),
                        prompt_existing = existingQuestionsText existingQuestions\<rparr>
               in (case parse_reply env of
                     Inl e \<Rightarrow> fail e (Some p)
                   | Inr questionData \<Rightarrow>
                       save_generated (save env) (random_id env) topicId p questionData d))"

subsection \<open>evolve-quiz\<close>

text \<open>
  The column \<^verbatim>\<open>current_difficulty\<close> has the enum type \<^verbatim>\<open>difficulty_level\<close>: the
  storage service accepts one of its three labels and rejects every other value.
\<close>

definition difficulty_of_label :: "json \<Rightarrow> difficulty option" where
  "difficulty_of_label v =
     (if v = JString ''easy'' then Some Easy
      else if v = JString ''medium'' then Some Medium
      else if v = JString ''hard'' then Some Hard
      else None)"

text \<open>
  The surroundings of \<^verbatim>\<open>evolve-quiz\<close>: whether the storage service carries the
  update of the session out when its values fit the columns. The result of the update is
  not read by the handler.
\<close>

record evolution = services +
  update_carried_out :: bool

record evolve_outcome =
  decision :: "string + (string \<times> json) list"
  sessions_after :: database
  analysed :: "(nat \<times> nat) option"
  evolve_logged :: "string list"

text \<open>
  \<^verbatim>\<open>answer.is_correct\<close> as the condition of the \<^verbatim>\<open>filter\<close>: the truthiness of that
  property of an element; an element that is not an object has no such property.
\<close>

fun answer_is_correct :: "json \<Rightarrow> bool" where
  "answer_is_correct (JObject properties) = truthy (map_of properties ''is_correct'')"
| "answer_is_correct _ = False"

text \<open>
  \<^verbatim>\<open>const totalAnswers = recentAnswers.length;\<close> and
  \<^verbatim>\<open>const correctAnswers = recentAnswers.filter((answer: any) => answer.is_correct).length;\<close>
  on the \<^verbatim>\<open>recentAnswers\<close> of the request body, \<open>None\<close> when the body has no such
  property. Reading \<^verbatim>\<open>length\<close> throws when the value is missing or \<^verbatim>\<open>null\<close>, the call of
  \<^verbatim>\<open>filter\<close> throws when the value is not an array, and reading \<^verbatim>\<open>is_correct\<close> throws
  on an element that is \<^verbatim>\<open>null\<close>; the messages are those of the runtime. Otherwise the
  result is \<open>(totalAnswers, correctAnswers)\<close>. The later \<^verbatim>\<open>map\<close> over the same array
  reads properties of the same elements and only builds text for the prompt.
\<close>

definition analyse_answers :: "json option \<Rightarrow> string + nat \<times> nat" where
  "analyse_answers recentAnswers =
     (case recentAnswers of
        None \<Rightarrow> Inl ''Cannot read properties of undefined (reading 'length')''
      | Some JNull \<Rightarrow> Inl ''Cannot read properties of null (reading 'length')''
      | Some (JArray answers) \<Rightarrow>
          if JNull \<in> set answers
          then Inl ''Cannot read properties of null (reading 'is_correct')''
          else Inr (length answers, length (filter answer_is_correct answers))
      | Some _ \<Rightarrow> Inl ''recentAnswers.filter is not a function'')"

text \<open>
  The part of the handler after \<^verbatim>\<open>JSON.parse\<close>: \<^verbatim>\<open>updates\<close> gets
  \<^verbatim>\<open>current_difficulty\<close> and \<^verbatim>\<open>focus_area\<close> when the decision holds truthy values
  for them, and is written to the session when it is not empty. An update whose
  \<^verbatim>\<open>current_difficulty\<close> is not a label of the enum is rejected as a whole. The focus
  area is kept as the value that was sent.
\<close>

definition apply_decision ::
    "bool \<Rightarrow> string \<Rightarrow> (string \<times> json) list \<Rightarrow> database \<Rightarrow> database" where
  "apply_decision carried_out sessionId evolutionDecision d =
     (let new_difficulty = map_of evolutionDecision ''new_difficulty'';
          focus = map_of evolutionDecision ''focus_area'';
          with_focus = (\<lambda>r. if truthy focus then r\<lparr>focus_area := focus\<rparr> else r)
      in if truthy new_difficulty then
           (case Option.bind new_difficulty difficulty_of_label of
              None \<Rightarrow> d
            | Some label \<Rightarrow>
                if carried_out
                then update_session sessionId
                       (\<lambda>r. (with_focus r)\<lparr>current_difficulty := label\<rparr>) d
                else d)
         else if truthy focus \<and> carried_out then update_session sessionId with_focus d
         else d)"

text \<open>
  The handler of \<^verbatim>\<open>evolve-quiz\<close> for a request with \<open>sessionId\<close> and
  \<open>recentAnswers\<close>. The session is looked up first, then the recent answers are
  counted, then the API key is read. The counts and the texts of the answers only enter
  the prompt, and the reply of the generation service is given by the environment. Every
  \<^verbatim>\<open>throw\<close> ends in the \<^verbatim>\<open>catch\<close> block, with nothing written.
\<close>

definition evolve_quiz ::
    "evolution \<Rightarrow> string \<Rightarrow> json option \<Rightarrow> database \<Rightarrow> evolve_outcome" where
  "evolve_quiz env sessionId recentAnswers d =
     (let fail = (\<lambda>e a. \<lparr>decision = Inl e, sessions_after = d, analysed = a,
                          evolve_logged = [''Error in evolve-quiz function: '' @ e]\<rparr>)
      in case single (filter (\<lambda>r. session_id r = sessionId) (quiz_sessions d)) of
           None \<Rightarrow> fail ''Session not found'' None
         | Some found \<Rightarrow>
             (case analyse_answers recentAnswers of
                Inl e \<Rightarrow> fail e None
              | Inr counts \<Rightarrow>
                  if no_key (api_key env) then fail ''Gemini API key not found'' (Some counts)
                  else
                    (case parse_reply env of
                       Inl e \<Rightarrow> fail e (Some counts)
                     | Inr evolutionDecision \<Rightarrow>
                         \<lparr>decision = Inr evolutionDecision,
                          sessions_after =
                            apply_decision (update_carried_out env) sessionId
                              evolutionDecision d,
                          analysed = Some counts,
                          evolve_logged = []\<rparr>)))"

section \<open>The extraction described by the specification\<close>

text \<open>
  The specification describes the extraction as the first balanced object of the text:
  the substring from the first opening brace to the closing brace that matches it.
  \<open>balanced_prefix depth cs\<close> reads on to the closing brace at nesting depth \<open>depth\<close>.
\<close>

fun balanced_prefix :: "nat \<Rightarrow> string \<Rightarrow> string option" where
  "balanced_prefix depth [] = None"
| "balanced_prefix depth (c # cs) =
     (if c = CHR ''{'' then map_option ((#) c) (balanced_prefix (Suc depth) cs)
      else if c = CHR ''}'' then
        (if depth = 0 then Some [c] else map_option ((#) c) (balanced_prefix (depth - 1) cs))
      else map_option ((#) c) (balanced_prefix depth cs))"

definition first_balanced_object :: "string \<Rightarrow> string option" where
  "first_balanced_object generatedText =
     (case dropWhile (\<lambda>c. c \<noteq> CHR ''{'') generatedText of
        [] \<Rightarrow> None
      | c # rest \<Rightarrow> map_option ((#) c) (balanced_prefix 0 rest))"

section \<open>Sample data\<close>

text \<open>
  A topic with a medium and a hard question, the component as \<^verbatim>\<open>useState\<close>
  initialises it, and surroundings in which every call succeeds. They are the inputs of
  the examples.
\<close>

definition sample_questions :: "question_row list" where
  "sample_questions =
     [\<lparr>row_id = ''q1'', row_topic_id = ''t1'', row_question_text = ''2 + 2 = ?'',
       row_question_type = Mcq, row_difficulty = Medium, row_correct_answer = ''4'',
       row_options = None, row_rationale = None\<rparr>,
      \<lparr>row_id = ''q2'', row_topic_id = ''t1'', row_question_text = ''3 * 3 = _____'',
       row_question_type = Fill_blank, row_difficulty = Hard, row_correct_answer = ''9'',
       row_options = None, row_rationale = None\<rparr>]"

definition sample_database :: database where
  "sample_database =
     \<lparr>questions = sample_questions, quiz_sessions = [], user_answers = [],
      topics = [\<lparr>topic_key = ''t1'', title = ''Arithmetic'', description = None\<rparr>]\<rparr>"

definition initial_component :: component where
  "initial_component =
     \<lparr>session = None, currentQuestion = None, userAnswer = [], isAnswering = False,
      showFeedback = False, lastAnswerCorrect = False, aiFeedback = [], isLoading = True\<rparr>"

definition sample_world :: world where
  "sample_world =
     \<lparr>store = sample_database, view = initial_component, toasts = [], console = [],
      invoked = []\<rparr>"

definition quiet_loading :: loading where
  "quiet_loading =
     \<lparr>read_error = None, generated = Generate_data None,
      parse_options = (\<lambda>t. Inl ''Unexpected token'')\<rparr>"

definition all_saved :: write_outcomes where
  "all_saved = \<lparr>answer_saved = True, counters_saved = True, difficulty_saved = True\<rparr>"

text \<open>The quiz on the sample topic right after \<^verbatim>\<open>initializeQuiz\<close>.\<close>

definition started_world :: world where
  "started_world = initializeQuiz ''t1'' quiet_loading (Some ''p1'') (Inr ''s1'') sample_world"

text \<open>
  One round of the quiz: the user types \<open>a\<close>, submits it and presses
  \<^verbatim>\<open>Next Question\<close>.
\<close>

definition answer_and_continue :: "string \<Rightarrow> world \<Rightarrow> world" where
  "answer_and_continue a w =
     nextQuestion ''t1'' quiet_loading (submitAnswer all_saved Grade_no_data (setUserAnswer a w))"

text \<open>
  \<^verbatim>\<open>JSON.parse\<close> on the texts of the examples: three objects, and texts that are not
  JSON, on which it throws. It is not meant for other JSON texts.
\<close>

definition sample_JSON_parse :: "string \<Rightarrow> string + (string \<times> json) list" where
  "sample_JSON_parse t =
     (if t = ''{}'' then Inr []
      else if t = ''{\"new_difficulty\":\"hard\"}''
        then Inr [(''new_difficulty'', JString ''hard'')]
      else if t = ''{\"question_text\":\"1 + 1 = ?\",\"correct_answer\":\"2\",\"question_type\":\"mcq\"}''
        then Inr [(''question_text'', JString ''1 + 1 = ?''),
                  (''correct_answer'', JString ''2''),
                  (''question_type'', JString ''mcq'')]
      else Inl ''Unexpected token'')"

text \<open>
  A storage service that rejects the insert of a question, and one that stores the
  question of the third sample text with the default difficulty of the schema.
\<close>

definition rejecting_storage :: "question_insert \<Rightarrow> string + question_row" where
  "rejecting_storage payload = Inl ''null value violates not-null constraint''"

definition accepting_storage :: "question_insert \<Rightarrow> string + question_row" where
  "accepting_storage payload =
     Inr \<lparr>row_id = ''q3'', row_topic_id = ins_topic_id payload,
          row_question_text = ''1 + 1 = ?'', row_question_type = Mcq,
          row_difficulty = Medium, row_correct_answer = ''2'',
          row_options = None, row_rationale = None\<rparr>"

text \<open>A question as the \<^verbatim>\<open>generate-question\<close> function may return it.\<close>

definition generated_sample :: Question where
  "generated_sample =
     \<lparr>question_id = ''q7'', question_text = ''5 - 2 = ?'', question_type = Mcq,
      question_difficulty = Medium, correct_answer = ''3'',
      options = Some [''1'', ''2'', ''3'', ''4''], rationale = None\<rparr>"

definition sample_generation ::
    "string \<Rightarrow> (question_insert \<Rightarrow> string + question_row) \<Rightarrow> generation" where
  "sample_generation generatedText storage =
     \<lparr>api_key = Some ''key'', gemini = Gemini_ok (Some generatedText),
      JSON_parse = sample_JSON_parse, existing_readable = True, save = storage,
      random_id = ''k3j9x0a1b''\<rparr>"

definition sample_evolution :: "string \<Rightarrow> evolution" where
  "sample_evolution generatedText =
     \<lparr>api_key = Some ''key'', gemini = Gemini_ok (Some generatedText),
      JSON_parse = sample_JSON_parse, update_carried_out = True\<rparr>"

section \<open>Grading\<close>

lemma isWhiteSpace_toLowerChar: "isWhiteSpace (toLowerChar c) = isWhiteSpace c"
  by (simp add: isWhiteSpace_def toLowerChar_def Let_def)

lemma dropWhile_toLowerCase:
  "dropWhile isWhiteSpace (toLowerCase s) = toLowerCase (dropWhile isWhiteSpace s)"
  by (induction s) (simp_all add: toLowerCase_def isWhiteSpace_toLowerChar)

lemma rev_toLowerCase: "rev (toLowerCase s) = toLowerCase (rev s)"
  by (simp add: toLowerCase_def rev_map)

lemma trim_toLowerCase: "trim (toLowerCase s) = toLowerCase (trim s)"
  by (simp add: trim_def dropWhile_toLowerCase rev_toLowerCase)

lemma toLowerCase_Paris: "toLowerCase ''Paris'' = ''paris''"
  by code_simp

lemma toLowerCase_paris_padded: "toLowerCase '' paris '' = '' paris ''"
  by code_simp

lemma trim_paris: "trim ''paris'' = ''paris''" "trim '' paris '' = ''paris''"
  by code_simp+

text \<open>
  C4. The grading expression marks an answer correct exactly when the submitted and the
  stored string are equal after trimming surrounding white space and lowercasing (the
  source lowercases first and trims second; the two orders give the same string). The
  answer \<open>Paris\<close> graded against the stored answer \<open> paris \<close> is correct.
\<close>

theorem C4_grading_normalised_equality:
  "(isCorrect submitted stored \<longleftrightarrow>
      toLowerCase (trim submitted) = toLowerCase (trim stored))
   \<and> isCorrect ''Paris'' '' paris ''"
  by (simp add: isCorrect_def trim_toLowerCase toLowerCase_Paris toLowerCase_paris_padded
      trim_paris)

theorem C4_grading_witness:
  "isCorrect ''PARIS '' ''paris'' \<and> \<not> isCorrect ''Paris'' ''Pari s''"
proof -
  have l: "toLowerCase (trim ''PARIS '') = ''paris''" "toLowerCase (trim ''paris'') = ''paris''"
    "toLowerCase (trim ''Paris'') = ''paris''" "toLowerCase (trim ''Pari s'') = ''pari s''"
    by code_simp+
  show ?thesis
    using C4_grading_normalised_equality [of "''PARIS ''" "''paris''"]
      C4_grading_normalised_equality [of "''Paris''" "''Pari s''"]
    by (simp add: l)
qed

section \<open>Difficulty adaptation\<close>

lemma submitAnswer_difficulty:
  assumes "currentQuestion (view w) = Some q" "session (view w) = Some s"
    "trim (userAnswer (view w)) \<noteq> []"
  shows "map_option current_difficulty (session (view (submitAnswer oc reply w))) =
           Some (adaptDifficulty (current_difficulty s) (total_questions s + 1)
                   (correct_answers s +
                      (if isCorrect (userAnswer (view w)) (correct_answer q) then 1 else 0)))"
  using assms by (simp add: submitAnswer_def Let_def)

lemma fifth_answer:
  "currentQuestion (view (setUserAnswer ''4''
      (answer_and_continue ''4'' (answer_and_continue ''4''
        (answer_and_continue ''4'' (answer_and_continue ''4'' started_world)))))) =
     Some \<lparr>question_id = ''q1'', question_text = ''2 + 2 = ?'', question_type = Mcq,
           question_difficulty = Medium, correct_answer = ''4'', options = None,
           rationale = None\<rparr>"
  "session (view (setUserAnswer ''4''
      (answer_and_continue ''4'' (answer_and_continue ''4''
        (answer_and_continue ''4'' (answer_and_continue ''4'' started_world)))))) =
     Some \<lparr>session_id = ''s1'', user_id = ''p1'', topic_id = ''t1'',
           current_difficulty = Medium, total_questions = 4, correct_answers = 4,
           is_active = True, focus_area = None\<rparr>"
  "trim (userAnswer (view (setUserAnswer ''4''
      (answer_and_continue ''4'' (answer_and_continue ''4''
        (answer_and_continue ''4'' (answer_and_continue ''4'' started_world))))))) \<noteq> []"
  "userAnswer (view (setUserAnswer ''4''
      (answer_and_continue ''4'' (answer_and_continue ''4''
        (answer_and_continue ''4'' (answer_and_continue ''4'' started_world)))))) = ''4''"
  "isCorrect ''4'' ''4''"
  "adaptDifficulty Medium 5 5 = Hard"
  by code_simp+

text \<open>
  C1. Once at least five answers are counted, the adapter steps one tier up when the
  accuracy \<open>correct / total\<close> is above 0.7 and the tier is not hard, one tier down when
  the accuracy is below 0.5 and the tier is not easy, and keeps the tier otherwise. With
  tier medium, five answers and four correct ones the result is hard; tier hard stays
  hard for every accuracy above 0.7. The tier the adapter returns for the incremented
  counters is the difficulty of the component's session after \<^verbatim>\<open>submitAnswer\<close>.
\<close>

theorem C1_difficulty_adapter:
  assumes "5 \<le> n_total"
  shows "(accuracy n_correct n_total > 0.7 \<and> current = Easy \<longrightarrow>
            adaptDifficulty current n_total n_correct = Medium)
       \<and> (accuracy n_correct n_total > 0.7 \<and> current = Medium \<longrightarrow>
            adaptDifficulty current n_total n_correct = Hard)
       \<and> (accuracy n_correct n_total < 0.5 \<and> current = Hard \<longrightarrow>
            adaptDifficulty current n_total n_correct = Medium)
       \<and> (accuracy n_correct n_total < 0.5 \<and> current = Medium \<longrightarrow>
            adaptDifficulty current n_total n_correct = Easy)
       \<and> (\<not> (accuracy n_correct n_total > 0.7 \<and> current \<noteq> Hard)
            \<and> \<not> (accuracy n_correct n_total < 0.5 \<and> current \<noteq> Easy) \<longrightarrow>
            adaptDifficulty current n_total n_correct = current)
       \<and> adaptDifficulty Medium 5 4 = Hard
       \<and> (accuracy n_correct n_total > 0.7 \<longrightarrow> adaptDifficulty Hard n_total n_correct = Hard)
       \<and> (currentQuestion (view w) = Some q \<and> session (view w) = Some s
            \<and> trim (userAnswer (view w)) \<noteq> [] \<longrightarrow>
          map_option current_difficulty (session (view (submitAnswer oc reply w))) =
            Some (adaptDifficulty (current_difficulty s) (total_questions s + 1)
                    (correct_answers s +
                       (if isCorrect (userAnswer (view w)) (correct_answer q) then 1 else 0))))"
proof -
  have excl: "\<not> (accuracy n_correct n_total > 0.7 \<and> accuracy n_correct n_total < 0.5)"
    by simp
  have m: "adaptDifficulty Medium 5 4 = Hard"
    by (simp add: adaptDifficulty_def accuracy_def)
  have steps: "(accuracy n_correct n_total > 0.7 \<and> current = Easy \<longrightarrow>
            adaptDifficulty current n_total n_correct = Medium)
       \<and> (accuracy n_correct n_total > 0.7 \<and> current = Medium \<longrightarrow>
            adaptDifficulty current n_total n_correct = Hard)
       \<and> (accuracy n_correct n_total < 0.5 \<and> current = Hard \<longrightarrow>
            adaptDifficulty current n_total n_correct = Medium)
       \<and> (accuracy n_correct n_total < 0.5 \<and> current = Medium \<longrightarrow>
            adaptDifficulty current n_total n_correct = Easy)
       \<and> (\<not> (accuracy n_correct n_total > 0.7 \<and> current \<noteq> Hard)
            \<and> \<not> (accuracy n_correct n_total < 0.5 \<and> current \<noteq> Easy) \<longrightarrow>
            adaptDifficulty current n_total n_correct = current)
       \<and> (accuracy n_correct n_total > 0.7 \<longrightarrow> adaptDifficulty Hard n_total n_correct = Hard)"
    using assms excl by (cases current) (auto simp add: adaptDifficulty_def)
  show ?thesis
    using steps m submitAnswer_difficulty [of w q s oc reply] by blast
qed

theorem C1_difficulty_adapter_witness:
  "(5::int) \<le> 10
   \<and> accuracy 8 10 > 0.7 \<and> adaptDifficulty Easy 10 8 = Medium
   \<and> adaptDifficulty Medium 10 8 = Hard
   \<and> adaptDifficulty Hard 10 8 = Hard
   \<and> accuracy 4 10 < 0.5 \<and> adaptDifficulty Hard 10 4 = Medium
   \<and> adaptDifficulty Medium 10 4 = Easy
   \<and> adaptDifficulty Easy 10 4 = Easy
   \<and> \<not> accuracy 6 10 > 0.7 \<and> \<not> accuracy 6 10 < 0.5 \<and> adaptDifficulty Medium 10 6 = Medium
   \<and> map_option current_difficulty (session (view
        (submitAnswer all_saved Grade_no_data (setUserAnswer ''4''
          (answer_and_continue ''4'' (answer_and_continue ''4''
            (answer_and_continue ''4'' (answer_and_continue ''4'' started_world)))))))) =
       Some Hard"
proof -
  have h: "(5::int) \<le> 10" by simp
  have a: "accuracy 8 10 > 0.7" "accuracy 4 10 < 0.5"
    "\<not> accuracy 6 10 > 0.7" "\<not> accuracy 6 10 < 0.5"
    by (simp_all add: accuracy_def)
  show ?thesis
    using a C1_difficulty_adapter [OF h, of 8 Easy] C1_difficulty_adapter [OF h, of 8 Medium]
      C1_difficulty_adapter [OF h, of 8 Hard] C1_difficulty_adapter [OF h, of 4 Hard]
      C1_difficulty_adapter [OF h, of 4 Medium] C1_difficulty_adapter [OF h, of 4 Easy]
      C1_difficulty_adapter [OF h, where n_correct = 6 and current = Medium
        and w = "setUserAnswer ''4''
          (answer_and_continue ''4'' (answer_and_continue ''4''
            (answer_and_continue ''4'' (answer_and_continue ''4'' started_world))))"
        and q = "\<lparr>question_id = ''q1'', question_text = ''2 + 2 = ?'', question_type = Mcq,
           question_difficulty = Medium, correct_answer = ''4'', options = None,
           rationale = None\<rparr>"
        and s = "\<lparr>session_id = ''s1'', user_id = ''p1'', topic_id = ''t1'',
           current_difficulty = Medium, total_questions = 4, correct_answers = 4,
           is_active = True, focus_area = None\<rparr>"
        and oc = all_saved and reply = Grade_no_data]
      fifth_answer
    by simp
qed

section \<open>The match of the brace pattern\<close>

lemma dropWhile_open_brace:
  "CHR ''{'' \<notin> set pre \<Longrightarrow>
   dropWhile (\<lambda>c. c \<noteq> CHR ''{'') (pre @ CHR ''{'' # rest) = CHR ''{'' # rest"
  by (induction pre) auto

lemma last_close_brace:
  "CHR ''}'' \<notin> set post \<Longrightarrow>
   rev (dropWhile (\<lambda>c. c \<noteq> CHR ''}'') (rev (mid @ CHR ''}'' # post))) = mid @ [CHR ''}'']"
  by (induction post rule: rev_induct) auto

lemma split_last_close_brace:
  assumes "CHR ''}'' \<in> set rest"
  shows "\<exists>mid post. rest = mid @ CHR ''}'' # post \<and> CHR ''}'' \<notin> set post"
  using assms by (metis split_list_last)

lemma split_first_open_brace:
  assumes "dropWhile (\<lambda>c. c \<noteq> CHR ''{'') t = c # rest"
  shows "\<exists>pre. t = pre @ CHR ''{'' # rest \<and> CHR ''{'' \<notin> set pre \<and> c = CHR ''{''"
proof -
  have c: "c = CHR ''{''"
    using assms hd_dropWhile [of "\<lambda>c. c \<noteq> CHR ''{''" t] by force
  have "t = takeWhile (\<lambda>c. c \<noteq> CHR ''{'') t @ c # rest"
    using assms takeWhile_dropWhile_id [of "\<lambda>c. c \<noteq> CHR ''{''" t] by simp
  moreover have "CHR ''{'' \<notin> set (takeWhile (\<lambda>c. c \<noteq> CHR ''{'') t)"
    using set_takeWhileD by fastforce
  ultimately show ?thesis using c by blast
qed

lemma extractJson_Some_iff:
  "extractJson t = Some m \<longleftrightarrow>
     (\<exists>pre mid post. t = pre @ m @ post \<and> m = CHR ''{'' # mid @ [CHR ''}'']
        \<and> CHR ''{'' \<notin> set pre \<and> CHR ''}'' \<notin> set post)"
proof
  assume "extractJson t = Some m"
  then obtain c rest where d: "dropWhile (\<lambda>c. c \<noteq> CHR ''{'') t = c # rest"
    and r: "CHR ''}'' \<in> set rest"
    and m: "m = c # rev (dropWhile (\<lambda>c. c \<noteq> CHR ''}'') (rev rest))"
    by (auto simp add: extractJson_def split: list.splits if_splits)
  from split_first_open_brace [OF d] obtain pre
    where t: "t = pre @ CHR ''{'' # rest" and pre: "CHR ''{'' \<notin> set pre" and c: "c = CHR ''{''"
    by blast
  from split_last_close_brace [OF r] obtain mid post
    where rest: "rest = mid @ CHR ''}'' # post" and post: "CHR ''}'' \<notin> set post"
    by blast
  have "m = CHR ''{'' # mid @ [CHR ''}'']"
    using m c rest last_close_brace [OF post, of mid] by simp
  then show "\<exists>pre mid post. t = pre @ m @ post \<and> m = CHR ''{'' # mid @ [CHR ''}'']
        \<and> CHR ''{'' \<notin> set pre \<and> CHR ''}'' \<notin> set post"
    using t rest pre post by auto
next
  assume "\<exists>pre mid post. t = pre @ m @ post \<and> m = CHR ''{'' # mid @ [CHR ''}'']
        \<and> CHR ''{'' \<notin> set pre \<and> CHR ''}'' \<notin> set post"
  then obtain pre mid post where t: "t = pre @ m @ post" and m: "m = CHR ''{'' # mid @ [CHR ''}'']"
    and pre: "CHR ''{'' \<notin> set pre" and post: "CHR ''}'' \<notin> set post"
    by blast
  have d: "dropWhile (\<lambda>c. c \<noteq> CHR ''{'') t = CHR ''{'' # (mid @ CHR ''}'' # post)"
    using t m dropWhile_open_brace [OF pre, of "mid @ CHR ''}'' # post"] by simp
  show "extractJson t = Some m"
    using d m last_close_brace [OF post, of mid] by (simp add: extractJson_def)
qed

lemma extractJson_idem: "extractJson t = Some m \<Longrightarrow> extractJson m = Some m"
proof -
  assume "extractJson t = Some m"
  then obtain mid where "m = CHR ''{'' # mid @ [CHR ''}'']"
    using extractJson_Some_iff [of t m] by blast
  then have "m = [] @ m @ [] \<and> m = CHR ''{'' # mid @ [CHR ''}''] \<and> CHR ''{'' \<notin> set [] \<and> CHR ''}'' \<notin> set []"
    by simp
  then show ?thesis
    using extractJson_Some_iff [of m m] by blast
qed

lemma extractJson_nonempty: "extractJson t = Some m \<Longrightarrow> m \<noteq> [] \<and> t \<noteq> []"
  using extractJson_Some_iff [of t m] by auto

lemma parse_reply_only_match:
  assumes "extractJson t = Some m"
  shows "parse_reply (env\<lparr>gemini := Gemini_ok (Some t)\<rparr>) = JSON_parse env m"
    and "parse_reply (env\<lparr>gemini := Gemini_ok (Some m)\<rparr>) = JSON_parse env m"
  using assms extractJson_idem [OF assms] extractJson_nonempty [OF assms]
  by (simp_all add: parse_reply_def generated_text_def)

lemma generate_question_only_match:
  assumes "extractJson t = Some m"
  shows "generate_question (env\<lparr>gemini := Gemini_ok (Some t)\<rparr>) topicId dif qt d =
         generate_question (env\<lparr>gemini := Gemini_ok (Some m)\<rparr>) topicId dif qt d"
  by (simp add: generate_question_def parse_reply_only_match [OF assms] Let_def cong: sum.case_cong split: option.split)

lemma evolve_quiz_only_match:
  assumes "extractJson t = Some m"
  shows "evolve_quiz (env\<lparr>gemini := Gemini_ok (Some t)\<rparr>) sid recent d =
         evolve_quiz (env\<lparr>gemini := Gemini_ok (Some m)\<rparr>) sid recent d"
  by (cases "analyse_answers recent")
    (simp_all add: evolve_quiz_def parse_reply_only_match [OF assms] Let_def
      cong: sum.case_cong split: option.split)

section \<open>Frame properties of the component\<close>

lemma generateNewQuestion_store: "store (generateNewQuestion t env dif w) = store w"
  by (simp add: generateNewQuestion_def Let_def split: generate_reply.splits option.splits)

lemma generateNewQuestion_session:
  "session (view (generateNewQuestion t env dif w)) = session (view w)"
  by (simp add: generateNewQuestion_def Let_def split: generate_reply.splits option.splits)

lemma generateNewQuestion_invoked:
  "invoked (generateNewQuestion t env dif w) = invoked w @ [Invoke_generate_question t dif Mcq]"
  by (simp add: generateNewQuestion_def Let_def split: generate_reply.splits option.splits)

lemma loadNextQuestion_store: "store (loadNextQuestion t env dif w) = store w"
  by (simp add: loadNextQuestion_def Let_def generateNewQuestion_store
      split: option.splits list.splits sum.splits)

lemma loadNextQuestion_session:
  "session (view (loadNextQuestion t env dif w)) = session (view w)"
  by (simp add: loadNextQuestion_def Let_def generateNewQuestion_session
      split: option.splits list.splits sum.splits)









section \<open>When the difficulty can change\<close>






section \<open>Feedback requests\<close>

lemma submitAnswer_invoked:
  assumes "currentQuestion (view w) = Some q" "session (view w) = Some s"
    "trim (userAnswer (view w)) \<noteq> []"
  shows "invoked (submitAnswer oc reply w) =
           invoked w @ (if asks_feedback q
              then [Invoke_grade_answer (question_text q) (userAnswer (view w))
                      (correct_answer q) (question_type q)] else [])"
  using assms by (simp add: submitAnswer_def Let_def)

lemma submitAnswer_flag:
  assumes "currentQuestion (view w) = Some q" "session (view w) = Some s"
    "trim (userAnswer (view w)) \<noteq> []"
  shows "lastAnswerCorrect (view (submitAnswer oc reply w)) =
           isCorrect (userAnswer (view w)) (correct_answer q)"
  using assms by (simp add: submitAnswer_def Let_def)

lemma submitAnswer_record:
  assumes "currentQuestion (view w) = Some q" "session (view w) = Some s"
    "trim (userAnswer (view w)) \<noteq> []" "answer_saved oc"
  shows "user_answers (store (submitAnswer oc reply w)) =
           user_answers (store w) @
             [\<lparr>answer_session_id = session_id s, answer_question_id = question_id q,
               answer_text = userAnswer (view w),
               is_correct = isCorrect (userAnswer (view w)) (correct_answer q),
               ai_feedback = (if asks_feedback q then feedback_of reply else [])\<rparr>]"
  using assms by (simp add: submitAnswer_def Let_def update_session_def)

lemma asks_feedback_iff:
  "asks_feedback q \<longleftrightarrow> question_type q \<in> {Fill_blank, Short_answer, Long_answer}"
  by (cases "question_type q") (simp_all add: asks_feedback_def)

lemma fill_blank_world:
  "currentQuestion (view (setUserAnswer ''9'' (loadNextQuestion ''t1'' quiet_loading Hard started_world))) =
     Some \<lparr>question_id = ''q2'', question_text = ''3 * 3 = _____'', question_type = Fill_blank,
           question_difficulty = Hard, correct_answer = ''9'', options = None, rationale = None\<rparr>"
  "session (view (setUserAnswer ''9'' (loadNextQuestion ''t1'' quiet_loading Hard started_world))) =
     Some \<lparr>session_id = ''s1'', user_id = ''p1'', topic_id = ''t1'',
           current_difficulty = Medium, total_questions = 0, correct_answers = 0,
           is_active = True, focus_area = None\<rparr>"
  "trim (userAnswer (view (setUserAnswer ''9'' (loadNextQuestion ''t1'' quiet_loading Hard started_world)))) \<noteq> []"
  "userAnswer (view (setUserAnswer ''9'' (loadNextQuestion ''t1'' quiet_loading Hard started_world))) = ''9''"
  "invoked (setUserAnswer ''9'' (loadNextQuestion ''t1'' quiet_loading Hard started_world)) = []"
  by code_simp+

lemma mcq_world:
  "currentQuestion (view (setUserAnswer ''5'' started_world)) =
     Some \<lparr>question_id = ''q1'', question_text = ''2 + 2 = ?'', question_type = Mcq,
           question_difficulty = Medium, correct_answer = ''4'', options = None, rationale = None\<rparr>"
  "session (view (setUserAnswer ''5'' started_world)) =
     Some \<lparr>session_id = ''s1'', user_id = ''p1'', topic_id = ''t1'',
           current_difficulty = Medium, total_questions = 0, correct_answers = 0,
           is_active = True, focus_area = None\<rparr>"
  "trim (userAnswer (view (setUserAnswer ''5'' started_world))) \<noteq> []"
  "userAnswer (view (setUserAnswer ''5'' started_world)) = ''5''"
  "invoked (setUserAnswer ''5'' started_world) = []"
  by code_simp+

lemma sample_grades: "isCorrect ''9'' ''9''" "\<not> isCorrect ''5'' ''4''"
  by code_simp+

text \<open>
  C5, as the code has it. When an answer is submitted, feedback is requested from the
  \<^verbatim>\<open>grade-answer\<close> function exactly for the question types other than \<^verbatim>\<open>mcq\<close> and
  \<^verbatim>\<open>true_false\<close>, that is for \<^verbatim>\<open>fill_blank\<close>, \<^verbatim>\<open>short_answer\<close> and
  \<^verbatim>\<open>long_answer\<close>. The correctness flag shown and stored is the result of the string
  comparison, whatever the feedback request returns.
\<close>

theorem C5_feedback_for_all_but_mcq_and_true_false:
  "currentQuestion (view w) = Some q \<and> session (view w) = Some s
     \<and> trim (userAnswer (view w)) \<noteq> [] \<longrightarrow>
   (question_type q \<in> {Fill_blank, Short_answer, Long_answer} \<longrightarrow>
      invoked (submitAnswer oc reply w) =
        invoked w @ [Invoke_grade_answer (question_text q) (userAnswer (view w))
                       (correct_answer q) (question_type q)])
   \<and> (question_type q \<in> {Mcq, True_false} \<longrightarrow>
        invoked (submitAnswer oc reply w) = invoked w)
   \<and> lastAnswerCorrect (view (submitAnswer oc reply w)) =
        isCorrect (userAnswer (view w)) (correct_answer q)
   \<and> (answer_saved oc \<longrightarrow>
        map is_correct (user_answers (store (submitAnswer oc reply w))) =
          map is_correct (user_answers (store w)) @
            [isCorrect (userAnswer (view w)) (correct_answer q)])"
proof (intro impI)
  assume a: "currentQuestion (view w) = Some q \<and> session (view w) = Some s
     \<and> trim (userAnswer (view w)) \<noteq> []"
  then have q: "currentQuestion (view w) = Some q" and s: "session (view w) = Some s"
    and t: "trim (userAnswer (view w)) \<noteq> []"
    by blast+
  have closed: "question_type q \<in> {Mcq, True_false} \<longleftrightarrow> \<not> asks_feedback q"
    by (cases "question_type q") (simp_all add: asks_feedback_def)
  show "(question_type q \<in> {Fill_blank, Short_answer, Long_answer} \<longrightarrow>
      invoked (submitAnswer oc reply w) =
        invoked w @ [Invoke_grade_answer (question_text q) (userAnswer (view w))
                       (correct_answer q) (question_type q)])
   \<and> (question_type q \<in> {Mcq, True_false} \<longrightarrow>
        invoked (submitAnswer oc reply w) = invoked w)
   \<and> lastAnswerCorrect (view (submitAnswer oc reply w)) =
        isCorrect (userAnswer (view w)) (correct_answer q)
   \<and> (answer_saved oc \<longrightarrow>
        map is_correct (user_answers (store (submitAnswer oc reply w))) =
          map is_correct (user_answers (store w)) @
            [isCorrect (userAnswer (view w)) (correct_answer q)])"
    using submitAnswer_invoked [OF q s t, of oc reply] submitAnswer_flag [OF q s t, of oc reply]
      submitAnswer_record [OF q s t, of oc reply] closed asks_feedback_iff [of q]
    by simp
qed

theorem C5_witness:
  "invoked (submitAnswer all_saved (Grade_data (Some ''Well done.''))
      (setUserAnswer ''9'' (loadNextQuestion ''t1'' quiet_loading Hard started_world))) =
     [Invoke_grade_answer ''3 * 3 = _____'' ''9'' ''9'' Fill_blank]
   \<and> lastAnswerCorrect (view (submitAnswer all_saved (Grade_data (Some ''Well done.''))
      (setUserAnswer ''9'' (loadNextQuestion ''t1'' quiet_loading Hard started_world))))
   \<and> invoked (submitAnswer all_saved (Grade_data (Some ''It is correct.''))
      (setUserAnswer ''5'' started_world)) = []
   \<and> \<not> lastAnswerCorrect (view (submitAnswer all_saved (Grade_data (Some ''It is correct.''))
      (setUserAnswer ''5'' started_world)))"
  using C5_feedback_for_all_but_mcq_and_true_false
      [of "setUserAnswer ''9'' (loadNextQuestion ''t1'' quiet_loading Hard started_world)"
        "\<lparr>question_id = ''q2'', question_text = ''3 * 3 = _____'', question_type = Fill_blank,
           question_difficulty = Hard, correct_answer = ''9'', options = None, rationale = None\<rparr>"
        "\<lparr>session_id = ''s1'', user_id = ''p1'', topic_id = ''t1'',
           current_difficulty = Medium, total_questions = 0, correct_answers = 0,
           is_active = True, focus_area = None\<rparr>"
        all_saved "Grade_data (Some ''Well done.'')"]
    C5_feedback_for_all_but_mcq_and_true_false
      [of "setUserAnswer ''5'' started_world"
        "\<lparr>question_id = ''q1'', question_text = ''2 + 2 = ?'', question_type = Mcq,
           question_difficulty = Medium, correct_answer = ''4'', options = None, rationale = None\<rparr>"
        "\<lparr>session_id = ''s1'', user_id = ''p1'', topic_id = ''t1'',
           current_difficulty = Medium, total_questions = 0, correct_answers = 0,
           is_active = True, focus_area = None\<rparr>"
        all_saved "Grade_data (Some ''It is correct.'')"]
    fill_blank_world mcq_world sample_grades
  by simp

text \<open>
  C5 as stated counts \<^verbatim>\<open>fill_blank\<close> among the types without feedback; the component
  requests feedback for a fill-in-the-blank question.
\<close>

theorem C5_fill_blank_counterexample:
  "map_option question_type (currentQuestion (view
      (setUserAnswer ''9'' (loadNextQuestion ''t1'' quiet_loading Hard started_world)))) =
     Some Fill_blank
   \<and> invoked (setUserAnswer ''9'' (loadNextQuestion ''t1'' quiet_loading Hard started_world)) = []
   \<and> invoked (submitAnswer all_saved Grade_no_data
      (setUserAnswer ''9'' (loadNextQuestion ''t1'' quiet_loading Hard started_world))) =
     [Invoke_grade_answer ''3 * 3 = _____'' ''9'' ''9'' Fill_blank]"
  by code_simp

section \<open>Counters and answer records\<close>

text \<open>
  C2 on the sample quiz: six correct answers in a row. The fifth answer raises the
  difficulty, and the session object the component keeps falls back to the counters 4 and
  4 while five answers are recorded. The sixth answer writes counters computed from that
  object: the stored session counts five answers, five of them correct, while six answer
  records exist.
\<close>

theorem C2_counters_fall_behind_the_answers:
  "(let w5 = answer_and_continue ''4'' (answer_and_continue ''4'' (answer_and_continue ''4''
              (answer_and_continue ''4'' (answer_and_continue ''4'' started_world))));
        w6 = answer_and_continue ''9'' w5
    in map is_correct (user_answers (store w5)) = [True, True, True, True, True]
       \<and> map total_questions (quiz_sessions (store w5)) = [5]
       \<and> map_option total_questions (session (view w5)) = Some 4
       \<and> map_option correct_answers (session (view w5)) = Some 4
       \<and> map is_correct (user_answers (store w6)) = [True, True, True, True, True, True]
       \<and> map total_questions (quiz_sessions (store w6)) = [5]
       \<and> map correct_answers (quiz_sessions (store w6)) = [5])"
  by code_simp

section \<open>Extraction of the JSON object\<close>

text \<open>
  C7, as the code has it. The text handed to \<^verbatim>\<open>JSON.parse\<close> is the substring from the
  first opening brace of the reply to its last closing brace, and exists exactly when a
  closing brace follows the first opening brace. Both functions parse exactly this
  substring: the reply enters their result only through it.
\<close>

theorem C7_match_runs_to_last_closing_brace:
  "(extractJson t = Some m \<longleftrightarrow>
      (\<exists>pre mid post. t = pre @ m @ post \<and> m = CHR ''{'' # mid @ [CHR ''}'']
          \<and> CHR ''{'' \<notin> set pre \<and> CHR ''}'' \<notin> set post))
   \<and> (extractJson t = Some m \<longrightarrow>
        parse_reply (genv\<lparr>gemini := Gemini_ok (Some t)\<rparr>) = JSON_parse genv m
        \<and> parse_reply (eenv\<lparr>gemini := Gemini_ok (Some t)\<rparr>) = JSON_parse eenv m
        \<and> generate_question (genv\<lparr>gemini := Gemini_ok (Some t)\<rparr>) topicId dif qt d =
            generate_question (genv\<lparr>gemini := Gemini_ok (Some m)\<rparr>) topicId dif qt d
        \<and> evolve_quiz (eenv\<lparr>gemini := Gemini_ok (Some t)\<rparr>) sid recent d =
            evolve_quiz (eenv\<lparr>gemini := Gemini_ok (Some m)\<rparr>) sid recent d)"
  for genv :: generation and eenv :: evolution
proof (intro conjI impI)
  show "extractJson t = Some m \<longleftrightarrow>
      (\<exists>pre mid post. t = pre @ m @ post \<and> m = CHR ''{'' # mid @ [CHR ''}'']
          \<and> CHR ''{'' \<notin> set pre \<and> CHR ''}'' \<notin> set post)"
    by (rule extractJson_Some_iff)
next
  assume a: "extractJson t = Some m"
  show "parse_reply (genv\<lparr>gemini := Gemini_ok (Some t)\<rparr>) = JSON_parse genv m"
    by (rule parse_reply_only_match(1) [OF a])
  show "parse_reply (eenv\<lparr>gemini := Gemini_ok (Some t)\<rparr>) = JSON_parse eenv m"
    by (rule parse_reply_only_match(1) [OF a])
  show "generate_question (genv\<lparr>gemini := Gemini_ok (Some t)\<rparr>) topicId dif qt d =
            generate_question (genv\<lparr>gemini := Gemini_ok (Some m)\<rparr>) topicId dif qt d"
    by (rule generate_question_only_match [OF a])
  show "evolve_quiz (eenv\<lparr>gemini := Gemini_ok (Some t)\<rparr>) sid recent d =
            evolve_quiz (eenv\<lparr>gemini := Gemini_ok (Some m)\<rparr>) sid recent d"
    by (rule evolve_quiz_only_match [OF a])
qed

lemma extract_sample: "extractJson ''Sure! {} Done.'' = Some ''{}''"
  by code_simp

theorem C7_witness:
  "extractJson ''Sure! {} Done.'' = Some ''{}''
   \<and> ''Sure! {} Done.'' = ''Sure! '' @ ''{}'' @ '' Done.''
   \<and> parse_reply ((sample_generation [] rejecting_storage)
        \<lparr>gemini := Gemini_ok (Some ''Sure! {} Done.'')\<rparr>) = Inr []
   \<and> parse_reply ((sample_evolution [])
        \<lparr>gemini := Gemini_ok (Some ''Sure! {} Done.'')\<rparr>) = Inr []"
proof -
  have p: "JSON_parse (sample_generation [] rejecting_storage) ''{}'' = Inr []"
    "JSON_parse (sample_evolution []) ''{}'' = Inr []"
    by (simp_all add: sample_generation_def sample_evolution_def sample_JSON_parse_def)
  show ?thesis
    using C7_match_runs_to_last_closing_brace
      [of "''Sure! {} Done.''" "''{}''" "sample_generation [] rejecting_storage"
        "sample_evolution []"]
      extract_sample p
    by simp
qed

text \<open>
  C7 as stated asks for the first balanced object. The match is another text when the
  reply has a closing brace after that object: the match runs on to it, and
  \<^verbatim>\<open>JSON.parse\<close> rejects a reply whose first balanced object it would accept.
\<close>

theorem C7_greedy_match_counterexample:
  "first_balanced_object ''{\"new_difficulty\":\"hard\"} or {}'' =
     Some ''{\"new_difficulty\":\"hard\"}''
   \<and> extractJson ''{\"new_difficulty\":\"hard\"} or {}'' =
     Some ''{\"new_difficulty\":\"hard\"} or {}''
   \<and> decision (evolve_quiz (sample_evolution ''{\"new_difficulty\":\"hard\"} or {}'') ''s1''
        (Some (JArray [])) (store started_world)) = Inl ''Unexpected token''
   \<and> decision (evolve_quiz (sample_evolution ''{\"new_difficulty\":\"hard\"}'') ''s1''
        (Some (JArray [])) (store started_world)) = Inr [(''new_difficulty'', JString ''hard'')]"
  by code_simp

section \<open>New sessions\<close>

text \<open>
  C10. A session created by \<^verbatim>\<open>initializeQuiz\<close> has the difficulty medium, for every
  topic and profile: the row appended to \<^verbatim>\<open>quiz_sessions\<close> and the session of the
  component are the same row, with that difficulty. Without a profile, or when the insert
  fails, no session is created.
\<close>

theorem C10_new_session_starts_medium:
  "(profile = Some pid \<and> inserted = Inr new_id \<longrightarrow>
      (\<exists>row. quiz_sessions (store (initializeQuiz topicId env profile inserted w)) =
                quiz_sessions (store w) @ [row]
           \<and> session (view (initializeQuiz topicId env profile inserted w)) = Some row
           \<and> session_id row = new_id \<and> topic_id row = topicId \<and> user_id row = pid
           \<and> current_difficulty row = Medium))
   \<and> (profile = None \<or> isl inserted \<longrightarrow>
        quiz_sessions (store (initializeQuiz topicId env profile inserted w)) =
          quiz_sessions (store w)
        \<and> session (view (initializeQuiz topicId env profile inserted w)) = session (view w))"
  by (auto simp add: initializeQuiz_def Let_def loadNextQuestion_store loadNextQuestion_session
      split: option.splits sum.splits)

theorem C10_witness:
  "quiz_sessions (store sample_world) = []
   \<and> map current_difficulty (quiz_sessions (store
        (initializeQuiz ''t1'' quiet_loading (Some ''p1'') (Inr ''s1'') sample_world))) = [Medium]
   \<and> map_option current_difficulty (session (view
        (initializeQuiz ''t1'' quiet_loading (Some ''p1'') (Inr ''s1'') sample_world))) = Some Medium
   \<and> quiz_sessions (store
        (initializeQuiz ''t1'' quiet_loading (Some ''p1'') (Inl ''permission denied'') sample_world)) = []"
proof -
  have e: "quiz_sessions (store sample_world) = []" "session (view sample_world) = None"
    by (simp_all add: sample_world_def sample_database_def initial_component_def)
  show ?thesis
    using C10_new_session_starts_medium
      [of "Some ''p1''" "''p1''" "Inr ''s1''" "''s1''" "''t1''" quiet_loading sample_world]
      C10_new_session_starts_medium
      [of "Some ''p1''" "''p1''" "Inl ''permission denied''" "''s1''" "''t1''" quiet_loading
        sample_world]
      e
    by auto
qed

section \<open>Replies that cannot be parsed\<close>

lemma parse_reply_rejects:
  assumes "gemini env = Gemini_ok (Some t)"
    and "extractJson t = None \<or> (\<exists>m e. extractJson t = Some m \<and> JSON_parse env m = Inl e)"
  shows "isl (parse_reply env)"
  using assms by (auto simp add: parse_reply_def generated_text_def)

lemma save_generated_accepts:
  "\<not> isl (response (save_generated storage random topicId p questionData d))"
  by (simp add: save_generated_def Let_def split: sum.split)

lemma generate_question_response:
  "isl (response (generate_question env topicId dif qt d)) \<longleftrightarrow>
     single (filter (\<lambda>t. topic_key t = topicId) (topics d)) = None
     \<or> no_key (api_key env) \<or> isl (parse_reply env)"
  by (cases "parse_reply env")
    (simp_all add: generate_question_def Let_def save_generated_accepts split: option.split)

lemma generate_question_error_keeps_tables:
  assumes "isl (response (generate_question env topicId dif qt d))"
  shows "tables_after (generate_question env topicId dif qt d) = d"
  using assms
  by (cases "parse_reply env")
    (simp_all add: generate_question_def Let_def save_generated_accepts
      split: option.split option.split_asm if_split_asm)

lemma parse_reply_no_parsable_part:
  assumes "gemini env = Gemini_ok (Some t)"
    and "\<forall>pre m post. t = pre @ m @ post \<longrightarrow> isl (JSON_parse env m)"
  shows "isl (parse_reply env)"
proof (cases "extractJson t")
  case None
  then show ?thesis
    using assms(1) parse_reply_rejects by blast
next
  case (Some m)
  then obtain pre post where "t = pre @ m @ post"
    using extractJson_Some_iff [of t m] by blast
  then have "isl (JSON_parse env m)"
    using assms(2) by blast
  then obtain e where "JSON_parse env m = Inl e"
    by (cases "JSON_parse env m") auto
  then show ?thesis
    using assms(1) Some parse_reply_rejects by blast
qed

lemma sample_rejected:
  "gemini (sample_generation ''I cannot help with that.'' accepting_storage) =
     Gemini_ok (Some ''I cannot help with that.'')"
  "extractJson ''I cannot help with that.'' = None"
  "gemini (sample_generation ''Here it is: {question: 1 + 1}'' accepting_storage) =
     Gemini_ok (Some ''Here it is: {question: 1 + 1}'')"
  "extractJson ''Here it is: {question: 1 + 1}'' = Some ''{question: 1 + 1}''"
  "JSON_parse (sample_generation ''Here it is: {question: 1 + 1}'' accepting_storage)
     ''{question: 1 + 1}'' = Inl ''Unexpected token''"
  by code_simp+

lemma sample_accepted:
  "single (filter (\<lambda>t. topic_key t = ''t1'') (topics sample_database)) \<noteq> None"
  "\<not> no_key (api_key (sample_generation ''{}'' rejecting_storage))"
  "parse_reply (sample_generation ''{}'' rejecting_storage) = Inr []"
  by code_simp+

lemma sample_JSON_parse_needs_brace:
  assumes "CHR ''{'' \<notin> set m"
  shows "isl (sample_JSON_parse m)"
proof -
  have "m \<noteq> ''{}''"
    "m \<noteq> ''{\"new_difficulty\":\"hard\"}''"
    "m \<noteq> ''{\"question_text\":\"1 + 1 = ?\",\"correct_answer\":\"2\",\"question_type\":\"mcq\"}''"
    using assms by auto
  then show ?thesis
    by (simp add: sample_JSON_parse_def)
qed

lemma sample_no_parsable_part:
  "\<forall>pre m post. ''I cannot help with that.'' = pre @ m @ post \<longrightarrow>
     isl (JSON_parse (sample_generation ''I cannot help with that.'' accepting_storage) m)"
proof (intro allI impI)
  fix pre m post :: string
  assume a: "''I cannot help with that.'' = pre @ m @ post"
  have "CHR ''{'' \<notin> set ''I cannot help with that.''"
    by simp
  then have "CHR ''{'' \<notin> set (pre @ m @ post)"
    using a by simp
  then have "CHR ''{'' \<notin> set m"
    by simp
  then show "isl (JSON_parse (sample_generation ''I cannot help with that.'' accepting_storage) m)"
    by (simp add: sample_generation_def sample_JSON_parse_needs_brace)
qed

text \<open>
  C6, as the code has it. When no part of the reply of the generation service is accepted
  by \<^verbatim>\<open>JSON.parse\<close>, and more generally when the brace pattern finds no match or
  \<^verbatim>\<open>JSON.parse\<close> rejects the match, \<^verbatim>\<open>generate-question\<close> answers with an error, and
  on every error the tables are left as they were. The fields of a parsed object are not
  checked: once the match parses, the function does not answer with an error.
\<close>

theorem C6_unparsable_reply_fails_and_stores_nothing:
  "(gemini env = Gemini_ok (Some t)
      \<and> (\<forall>pre m post. t = pre @ m @ post \<longrightarrow> isl (JSON_parse env m)) \<longrightarrow>
        isl (response (generate_question env topicId dif qt d))
        \<and> tables_after (generate_question env topicId dif qt d) = d)
   \<and> (gemini env = Gemini_ok (Some t)
      \<and> (extractJson t = None \<or> (\<exists>m e. extractJson t = Some m \<and> JSON_parse env m = Inl e)) \<longrightarrow>
        isl (response (generate_question env topicId dif qt d))
        \<and> tables_after (generate_question env topicId dif qt d) = d)
   \<and> (isl (response (generate_question env topicId dif qt d)) \<longrightarrow>
        tables_after (generate_question env topicId dif qt d) = d)
   \<and> (single (filter (\<lambda>t. topic_key t = topicId) (topics d)) \<noteq> None
        \<and> \<not> no_key (api_key env) \<and> parse_reply env = Inr questionData \<longrightarrow>
        \<not> isl (response (generate_question env topicId dif qt d)))"
proof (intro conjI impI)
  assume "gemini env = Gemini_ok (Some t)
      \<and> (\<forall>pre m post. t = pre @ m @ post \<longrightarrow> isl (JSON_parse env m))"
  then have "isl (parse_reply env)"
    using parse_reply_no_parsable_part by blast
  then show e: "isl (response (generate_question env topicId dif qt d))"
    by (simp add: generate_question_response)
  then show "tables_after (generate_question env topicId dif qt d) = d"
    by (rule generate_question_error_keeps_tables)
next
  assume a: "gemini env = Gemini_ok (Some t)
      \<and> (extractJson t = None \<or> (\<exists>m e. extractJson t = Some m \<and> JSON_parse env m = Inl e))"
  then have "isl (parse_reply env)"
    using parse_reply_rejects by blast
  then show e: "isl (response (generate_question env topicId dif qt d))"
    by (simp add: generate_question_response)
  then show "tables_after (generate_question env topicId dif qt d) = d"
    by (rule generate_question_error_keeps_tables)
next
  assume "isl (response (generate_question env topicId dif qt d))"
  then show "tables_after (generate_question env topicId dif qt d) = d"
    by (rule generate_question_error_keeps_tables)
next
  assume "single (filter (\<lambda>t. topic_key t = topicId) (topics d)) \<noteq> None
        \<and> \<not> no_key (api_key env) \<and> parse_reply env = Inr questionData"
  then show "\<not> isl (response (generate_question env topicId dif qt d))"
    by (simp add: generate_question_response)
qed

theorem C6_witness:
  "isl (response (generate_question
      (sample_generation ''I cannot help with that.'' accepting_storage) ''t1'' Medium Mcq
      sample_database))
   \<and> tables_after (generate_question
      (sample_generation ''I cannot help with that.'' accepting_storage) ''t1'' Medium Mcq
      sample_database) = sample_database
   \<and> isl (response (generate_question
      (sample_generation ''Here it is: {question: 1 + 1}'' accepting_storage) ''t1'' Medium Mcq
      sample_database))
   \<and> tables_after (generate_question
      (sample_generation ''Here it is: {question: 1 + 1}'' accepting_storage) ''t1'' Medium Mcq
      sample_database) = sample_database
   \<and> \<not> isl (response (generate_question (sample_generation ''{}'' rejecting_storage)
        ''t1'' Medium Mcq sample_database))"
  using C6_unparsable_reply_fails_and_stores_nothing
      [of "sample_generation ''I cannot help with that.'' accepting_storage"
        "''I cannot help with that.''" "''t1''" Medium Mcq sample_database]
    C6_unparsable_reply_fails_and_stores_nothing
      [of "sample_generation ''Here it is: {question: 1 + 1}'' accepting_storage"
        "''Here it is: {question: 1 + 1}''" "''t1''" Medium Mcq sample_database]
    C6_unparsable_reply_fails_and_stores_nothing
      [where env = "sample_generation ''{}'' rejecting_storage" and topicId = "''t1''"
         and d = sample_database and questionData = "[]" and dif = Medium and qt = Mcq]
    sample_rejected sample_no_parsable_part sample_accepted
  by simp

text \<open>
  C6 as stated also expects an error for an object that parses but is not of the
  expected shape. The empty object is answered with a question without fields, even when
  the storage service rejects the insert; an object without \<^verbatim>\<open>difficulty\<close>,
  \<^verbatim>\<open>options\<close> and \<^verbatim>\<open>rationale\<close> is stored.
\<close>

theorem C6_unchecked_shape_counterexample:
  "response (generate_question (sample_generation ''{}'' rejecting_storage) ''t1'' Medium Mcq
      sample_database) =
     Inr \<lparr>gen_id = ''k3j9x0a1b'', gen_question_text = None, gen_question_type = None,
          gen_difficulty = None, gen_correct_answer = None, gen_options = None,
          gen_rationale = None\<rparr>
   \<and> \<not> isl (response (generate_question
        (sample_generation
          ''Sure! {\"question_text\":\"1 + 1 = ?\",\"correct_answer\":\"2\",\"question_type\":\"mcq\"}''
          accepting_storage) ''t1'' Medium Mcq sample_database))
   \<and> map row_id (questions (tables_after (generate_question
        (sample_generation
          ''Sure! {\"question_text\":\"1 + 1 = ?\",\"correct_answer\":\"2\",\"question_type\":\"mcq\"}''
          accepting_storage) ''t1'' Medium Mcq sample_database))) = [''q1'', ''q2'', ''q3'']
   \<and> map row_id (questions sample_database) = [''q1'', ''q2'']"
  by code_simp

section \<open>Reuse before generation\<close>

lemma question_of_row_id: "question_of_row parse r = Inr q \<Longrightarrow> question_id q = row_id r"
  by (auto simp add: question_of_row_def Let_def split: option.splits if_splits sum.splits)

lemma loadNextQuestion_reuse:
  assumes "read_error env = None" "matching_questions topicId dif (store w) = r # rs"
    "question_of_row (parse_options env) r = Inr q"
  shows "loadNextQuestion topicId env dif w = w\<lparr>view := (view w)\<lparr>currentQuestion := Some q\<rparr>\<rparr>"
  using assms by (simp add: loadNextQuestion_def)

lemma loadNextQuestion_none_stored:
  assumes "read_error env = None" "matching_questions topicId dif (store w) = []"
  shows "loadNextQuestion topicId env dif w = generateNewQuestion topicId env dif w"
  using assms by (simp add: loadNextQuestion_def)

lemma loadNextQuestion_fallback:
  assumes "read_error env = Some e"
  shows "loadNextQuestion topicId env dif w =
           generateNewQuestion topicId env dif
             (w\<lparr>console := console w @ [''Error loading question: '' @ e]\<rparr>)"
  using assms by (simp add: loadNextQuestion_def)

lemma loadNextQuestion_unparsed_options:
  assumes "read_error env = None" "matching_questions topicId dif (store w) = r # rs"
    "question_of_row (parse_options env) r = Inl x"
  shows "invoked (loadNextQuestion topicId env dif w) =
           invoked w @ [Invoke_generate_question topicId dif Mcq]"
  using assms by (simp add: loadNextQuestion_def generateNewQuestion_invoked)

lemma existing_questions_bound:
  "length (existing_questions topicId d) \<le> 5
   \<and> set (existing_questions topicId d) \<subseteq> {r \<in> set (questions d). row_topic_id r = topicId}"
  using set_take_subset [of 5 "filter (\<lambda>r. row_topic_id r = topicId) (questions d)"]
  by (auto simp add: existing_questions_def)

lemma generate_question_asked:
  assumes "asked (generate_question genv topicId dif qt d) = Some p"
  shows "prompt_existing p =
           existingQuestionsText
             (if existing_readable genv then existing_questions topicId d else [])"
  using assms
  by (cases "parse_reply genv")
    (auto simp add: generate_question_def Let_def save_generated_def
      split: option.splits if_splits sum.splits)

lemma sample_reuse:
  "read_error quiet_loading = None"
  "matching_questions ''t1'' Medium (store started_world) =
     [\<lparr>row_id = ''q1'', row_topic_id = ''t1'', row_question_text = ''2 + 2 = ?'',
       row_question_type = Mcq, row_difficulty = Medium, row_correct_answer = ''4'',
       row_options = None, row_rationale = None\<rparr>]"
  "question_of_row (parse_options quiet_loading)
     \<lparr>row_id = ''q1'', row_topic_id = ''t1'', row_question_text = ''2 + 2 = ?'',
       row_question_type = Mcq, row_difficulty = Medium, row_correct_answer = ''4'',
       row_options = None, row_rationale = None\<rparr> =
     Inr \<lparr>question_id = ''q1'', question_text = ''2 + 2 = ?'', question_type = Mcq,
           question_difficulty = Medium, correct_answer = ''4'', options = None,
           rationale = None\<rparr>"
  "matching_questions ''t1'' Easy (store started_world) = []"
  "invoked started_world = []"
  by code_simp+

lemma sample_asked:
  "asked (generate_question (sample_generation ''{}'' rejecting_storage) ''t1'' Easy Mcq
      sample_database) =
     Some \<lparr>prompt_difficulty = Easy, prompt_questionType = Mcq, prompt_title = ''Arithmetic'',
           prompt_description = [],
           prompt_existing = existingQuestionsText sample_questions\<rparr>"
  by code_simp

text \<open>
  C8, as the code has it. When the query for stored questions succeeds and returns a
  question of the topic and difficulty whose options can be parsed, that question is
  shown and no generation request is sent. A generation request is sent when the query
  returns no question, and also when the query fails or the options of the stored
  question cannot be parsed. The prompt of \<^verbatim>\<open>generate-question\<close> embeds at most five
  questions, all of the requested topic.
\<close>

theorem C8_reuse_unless_the_read_fails:
  "(read_error env = None \<and> matching_questions topicId dif (store w) = r # rs
      \<and> question_of_row (parse_options env) r = Inr q \<longrightarrow>
      currentQuestion (view (loadNextQuestion topicId env dif w)) = Some q
      \<and> question_id q = row_id r
      \<and> invoked (loadNextQuestion topicId env dif w) = invoked w)
   \<and> (read_error env = None \<and> matching_questions topicId dif (store w) = [] \<longrightarrow>
        invoked (loadNextQuestion topicId env dif w) =
          invoked w @ [Invoke_generate_question topicId dif Mcq])
   \<and> (read_error env \<noteq> None
        \<or> (read_error env = None \<and> matching_questions topicId dif (store w) = r # rs
            \<and> isl (question_of_row (parse_options env) r)) \<longrightarrow>
        invoked (loadNextQuestion topicId env dif w) =
          invoked w @ [Invoke_generate_question topicId dif Mcq])
   \<and> (asked (generate_question genv topicId dif qt d) = Some p \<longrightarrow>
        (\<exists>qs. prompt_existing p = existingQuestionsText qs \<and> length qs \<le> 5
            \<and> set qs \<subseteq> {r \<in> set (questions d). row_topic_id r = topicId}))"
proof (intro conjI impI)
  assume a: "read_error env = None \<and> matching_questions topicId dif (store w) = r # rs
      \<and> question_of_row (parse_options env) r = Inr q"
  then have l: "loadNextQuestion topicId env dif w =
      w\<lparr>view := (view w)\<lparr>currentQuestion := Some q\<rparr>\<rparr>"
    using loadNextQuestion_reuse by blast
  show "currentQuestion (view (loadNextQuestion topicId env dif w)) = Some q"
    by (simp add: l)
  show "question_id q = row_id r"
    using a question_of_row_id by blast
  show "invoked (loadNextQuestion topicId env dif w) = invoked w"
    by (simp add: l)
next
  assume "read_error env = None \<and> matching_questions topicId dif (store w) = []"
  then show "invoked (loadNextQuestion topicId env dif w) =
          invoked w @ [Invoke_generate_question topicId dif Mcq]"
    by (simp add: loadNextQuestion_none_stored generateNewQuestion_invoked)
next
  assume b: "read_error env \<noteq> None
        \<or> (read_error env = None \<and> matching_questions topicId dif (store w) = r # rs
            \<and> isl (question_of_row (parse_options env) r))"
  show "invoked (loadNextQuestion topicId env dif w) =
          invoked w @ [Invoke_generate_question topicId dif Mcq]"
  proof (cases "read_error env")
    case None
    then obtain x where "question_of_row (parse_options env) r = Inl x"
      and "matching_questions topicId dif (store w) = r # rs"
      using b by (cases "question_of_row (parse_options env) r") auto
    then show ?thesis
      using None loadNextQuestion_unparsed_options by blast
  next
    case (Some e)
    then show ?thesis
      by (simp add: loadNextQuestion_fallback generateNewQuestion_invoked)
  qed
next
  assume c: "asked (generate_question genv topicId dif qt d) = Some p"
  show "\<exists>qs. prompt_existing p = existingQuestionsText qs \<and> length qs \<le> 5
            \<and> set qs \<subseteq> {r \<in> set (questions d). row_topic_id r = topicId}"
  proof (cases "existing_readable genv")
    case True
    then have "prompt_existing p = existingQuestionsText (existing_questions topicId d)"
      using generate_question_asked [OF c] by simp
    then show ?thesis
      using existing_questions_bound by blast
  next
    case False
    then have "prompt_existing p = existingQuestionsText []"
      using generate_question_asked [OF c] by simp
    moreover have "length ([] :: question_row list) \<le> 5
        \<and> set ([] :: question_row list) \<subseteq> {r \<in> set (questions d). row_topic_id r = topicId}"
      by simp
    ultimately show ?thesis by blast
  qed
qed

theorem C8_witness:
  "currentQuestion (view (loadNextQuestion ''t1'' quiet_loading Medium started_world)) =
     Some \<lparr>question_id = ''q1'', question_text = ''2 + 2 = ?'', question_type = Mcq,
           question_difficulty = Medium, correct_answer = ''4'', options = None,
           rationale = None\<rparr>
   \<and> invoked (loadNextQuestion ''t1'' quiet_loading Medium started_world) = []
   \<and> invoked (loadNextQuestion ''t1'' quiet_loading Easy started_world) =
       [Invoke_generate_question ''t1'' Easy Mcq]
   \<and> invoked (loadNextQuestion ''t1'' (quiet_loading\<lparr>read_error := Some ''timeout''\<rparr>) Hard
        started_world) = [Invoke_generate_question ''t1'' Hard Mcq]
   \<and> (\<exists>qs. existingQuestionsText sample_questions = existingQuestionsText qs \<and> length qs \<le> 5
         \<and> set qs \<subseteq> {r \<in> set (questions sample_database). row_topic_id r = ''t1''})"
  using C8_reuse_unless_the_read_fails
      [of quiet_loading "''t1''" Medium started_world
        "\<lparr>row_id = ''q1'', row_topic_id = ''t1'', row_question_text = ''2 + 2 = ?'',
          row_question_type = Mcq, row_difficulty = Medium, row_correct_answer = ''4'',
          row_options = None, row_rationale = None\<rparr>" "[]"
        "\<lparr>question_id = ''q1'', question_text = ''2 + 2 = ?'', question_type = Mcq,
           question_difficulty = Medium, correct_answer = ''4'', options = None,
           rationale = None\<rparr>"
        "sample_generation ''{}'' rejecting_storage" Mcq sample_database
        "\<lparr>prompt_difficulty = Easy, prompt_questionType = Mcq, prompt_title = ''Arithmetic'',
           prompt_description = [],
           prompt_existing = existingQuestionsText sample_questions\<rparr>"]
    C8_reuse_unless_the_read_fails
      [of quiet_loading "''t1''" Easy started_world _ _ _
        "sample_generation ''{}'' rejecting_storage" Mcq sample_database
        "\<lparr>prompt_difficulty = Easy, prompt_questionType = Mcq, prompt_title = ''Arithmetic'',
           prompt_description = [],
           prompt_existing = existingQuestionsText sample_questions\<rparr>"]
    C8_reuse_unless_the_read_fails
      [where env = "quiet_loading\<lparr>read_error := Some ''timeout''\<rparr>" and topicId = "''t1''"
         and dif = Hard and w = started_world]
    sample_reuse sample_asked
  by simp

text \<open>
  C8 as stated does not hold when the query fails: a matching question is stored, and a
  generation request is sent all the same.
\<close>

theorem C8_failed_read_counterexample:
  "map row_id (matching_questions ''t1'' Medium (store started_world)) = [''q1'']
   \<and> invoked started_world = []
   \<and> invoked (loadNextQuestion ''t1'' (quiet_loading\<lparr>read_error := Some ''connection lost''\<rparr>)
        Medium started_world) = [Invoke_generate_question ''t1'' Medium Mcq]"
  by code_simp

section \<open>Errors of the storage service\<close>

lemma initializeQuiz_insert_error:
  "initializeQuiz topicId env (Some pid) (Inl e) w =
     w\<lparr>toasts := toasts w @ [\<lparr>toast_title = ''Error'', toast_description = e\<rparr>],
       view := (view w)\<lparr>isLoading := False\<rparr>\<rparr>"
  by (simp add: initializeQuiz_def)

lemma generateNewQuestion_toasts:
  "toasts (generateNewQuestion topicId env dif w) =
     toasts w @
       (case generated env of
          Generate_data _ \<Rightarrow> []
        | _ \<Rightarrow> [\<lparr>toast_title = ''Error'', toast_description = ''Failed to load question''\<rparr>])"
  by (simp add: generateNewQuestion_def Let_def split: generate_reply.splits option.splits)

lemma generateNewQuestion_console:
  "console (generateNewQuestion topicId env dif w) =
     console w @
       (case generated env of
          Generate_data _ \<Rightarrow> []
        | Generate_error x \<Rightarrow> [''Error generating question: '' @ x]
        | Generate_throws x \<Rightarrow> [''Error generating question: '' @ x])"
  by (simp add: generateNewQuestion_def Let_def split: generate_reply.splits option.splits)

lemma save_generated_error:
  assumes "storage (question_payload topicId questionData) = Inl e"
  shows "tables_after (save_generated storage random topicId p questionData d) = d"
    and "logged (save_generated storage random topicId p questionData d) =
           [''Error saving question: '' @ e]"
    and "map_sum id gen_id (response (save_generated storage random topicId p questionData d)) =
           Inr random"
  using assms by (simp_all add: save_generated_def Let_def)

lemma generate_question_saves:
  assumes "single (filter (\<lambda>t. topic_key t = topicId) (topics d)) = Some tp"
    "\<not> no_key (api_key genv)" "parse_reply genv = Inr questionData"
  shows "\<exists>p. generate_question genv topicId dif qt d =
           save_generated (save genv) (random_id genv) topicId p questionData d"
  using assms by (auto simp add: generate_question_def Let_def)

lemma sample_failures:
  "read_error (quiet_loading\<lparr>read_error := Some ''connection lost''\<rparr>) = Some ''connection lost''"
  "generated (quiet_loading\<lparr>read_error := Some ''connection lost''\<rparr>) = Generate_data None"
  "toasts sample_world = []" "toasts started_world = []" "console started_world = []"
  "single (filter (\<lambda>t. topic_key t = ''t1'') (topics sample_database)) =
     Some \<lparr>topic_key = ''t1'', title = ''Arithmetic'', description = None\<rparr>"
  "\<not> no_key (api_key (sample_generation ''{}'' rejecting_storage))"
  "parse_reply (sample_generation ''{}'' rejecting_storage) = Inr []"
  "save (sample_generation ''{}'' rejecting_storage) (question_payload ''t1'' []) =
     Inl ''null value violates not-null constraint''"
  "random_id (sample_generation ''{}'' rejecting_storage) = ''k3j9x0a1b''"
  by code_simp+

text \<open>
  C9, as the code has it. An error of the insert that creates the session is shown to the
  user with its own message, and nothing is retried or stored. An error of the query in
  \<^verbatim>\<open>loadNextQuestion\<close> is not shown: it is logged and a question is requested from
  \<^verbatim>\<open>generate-question\<close> in its place; the user sees a toast only when that request
  fails too, with a fixed text. An error of the insert in \<^verbatim>\<open>generate-question\<close> is not
  shown either: it is logged, and the question is returned with a random id while nothing
  is stored.
\<close>

theorem C9_storage_errors_shown_logged_or_replaced:
  "(toasts (initializeQuiz topicId env (Some pid) (Inl e) w) =
      toasts w @ [\<lparr>toast_title = ''Error'', toast_description = e\<rparr>]
    \<and> store (initializeQuiz topicId env (Some pid) (Inl e) w) = store w
    \<and> session (view (initializeQuiz topicId env (Some pid) (Inl e) w)) = session (view w)
    \<and> invoked (initializeQuiz topicId env (Some pid) (Inl e) w) = invoked w)
   \<and> (read_error env = Some e \<longrightarrow>
        invoked (loadNextQuestion topicId env dif w) =
          invoked w @ [Invoke_generate_question topicId dif Mcq]
        \<and> toasts (loadNextQuestion topicId env dif w) =
            toasts w @
              (case generated env of
                 Generate_data _ \<Rightarrow> []
               | _ \<Rightarrow> [\<lparr>toast_title = ''Error'',
                         toast_description = ''Failed to load question''\<rparr>])
        \<and> console (loadNextQuestion topicId env dif w) =
            console w @ [''Error loading question: '' @ e] @
              (case generated env of
                 Generate_data _ \<Rightarrow> []
               | Generate_error x \<Rightarrow> [''Error generating question: '' @ x]
               | Generate_throws x \<Rightarrow> [''Error generating question: '' @ x]))
   \<and> (single (filter (\<lambda>t. topic_key t = topicId) (topics d)) = Some tp
        \<and> \<not> no_key (api_key genv) \<and> parse_reply genv = Inr questionData
        \<and> save genv (question_payload topicId questionData) = Inl e \<longrightarrow>
        map_sum id gen_id (response (generate_question genv topicId dif qt d)) =
          Inr (random_id genv)
        \<and> tables_after (generate_question genv topicId dif qt d) = d
        \<and> logged (generate_question genv topicId dif qt d) = [''Error saving question: '' @ e])"
proof (intro conjI impI)
  show "toasts (initializeQuiz topicId env (Some pid) (Inl e) w) =
      toasts w @ [\<lparr>toast_title = ''Error'', toast_description = e\<rparr>]"
    "store (initializeQuiz topicId env (Some pid) (Inl e) w) = store w"
    "session (view (initializeQuiz topicId env (Some pid) (Inl e) w)) = session (view w)"
    "invoked (initializeQuiz topicId env (Some pid) (Inl e) w) = invoked w"
    by (simp_all add: initializeQuiz_insert_error)
next
  assume r: "read_error env = Some e"
  show "invoked (loadNextQuestion topicId env dif w) =
          invoked w @ [Invoke_generate_question topicId dif Mcq]"
    by (simp add: loadNextQuestion_fallback [OF r] generateNewQuestion_invoked)
  show "toasts (loadNextQuestion topicId env dif w) =
            toasts w @
              (case generated env of
                 Generate_data _ \<Rightarrow> []
               | _ \<Rightarrow> [\<lparr>toast_title = ''Error'',
                         toast_description = ''Failed to load question''\<rparr>])"
    by (simp add: loadNextQuestion_fallback [OF r] generateNewQuestion_toasts)
  show "console (loadNextQuestion topicId env dif w) =
            console w @ [''Error loading question: '' @ e] @
              (case generated env of
                 Generate_data _ \<Rightarrow> []
               | Generate_error x \<Rightarrow> [''Error generating question: '' @ x]
               | Generate_throws x \<Rightarrow> [''Error generating question: '' @ x])"
    by (simp add: loadNextQuestion_fallback [OF r] generateNewQuestion_console)
next
  assume s: "single (filter (\<lambda>t. topic_key t = topicId) (topics d)) = Some tp
        \<and> \<not> no_key (api_key genv) \<and> parse_reply genv = Inr questionData
        \<and> save genv (question_payload topicId questionData) = Inl e"
  then obtain p where g: "generate_question genv topicId dif qt d =
           save_generated (save genv) (random_id genv) topicId p questionData d"
    using generate_question_saves by blast
  from s have f: "save genv (question_payload topicId questionData) = Inl e"
    by blast
  show "map_sum id gen_id (response (generate_question genv topicId dif qt d)) =
          Inr (random_id genv)"
    by (simp only: g save_generated_error(3) [where storage = "save genv", OF f])
  show "tables_after (generate_question genv topicId dif qt d) = d"
    by (simp only: g save_generated_error(1) [where storage = "save genv", OF f])
  show "logged (generate_question genv topicId dif qt d) = [''Error saving question: '' @ e]"
    by (simp only: g save_generated_error(2) [where storage = "save genv", OF f])
qed

theorem C9_witness:
  "toasts (initializeQuiz ''t1'' quiet_loading (Some ''p1'') (Inl ''permission denied'')
      sample_world) = [\<lparr>toast_title = ''Error'', toast_description = ''permission denied''\<rparr>]
   \<and> invoked (loadNextQuestion ''t1'' (quiet_loading\<lparr>read_error := Some ''connection lost''\<rparr>)
        Medium started_world) = [Invoke_generate_question ''t1'' Medium Mcq]
   \<and> toasts (loadNextQuestion ''t1'' (quiet_loading\<lparr>read_error := Some ''connection lost''\<rparr>)
        Medium started_world) = []
   \<and> console (loadNextQuestion ''t1'' (quiet_loading\<lparr>read_error := Some ''connection lost''\<rparr>)
        Medium started_world) = [''Error loading question: connection lost'']
   \<and> map_sum id gen_id (response (generate_question (sample_generation ''{}'' rejecting_storage)
        ''t1'' Medium Mcq sample_database)) = Inr ''k3j9x0a1b''
   \<and> tables_after (generate_question (sample_generation ''{}'' rejecting_storage)
        ''t1'' Medium Mcq sample_database) = sample_database
   \<and> logged (generate_question (sample_generation ''{}'' rejecting_storage)
        ''t1'' Medium Mcq sample_database) =
       [''Error saving question: null value violates not-null constraint'']"
  using C9_storage_errors_shown_logged_or_replaced
      [where topicId = "''t1''" and env = quiet_loading and pid = "''p1''"
         and e = "''permission denied''" and w = sample_world]
    C9_storage_errors_shown_logged_or_replaced
      [where topicId = "''t1''"
         and env = "quiet_loading\<lparr>read_error := Some ''connection lost''\<rparr>"
         and e = "''connection lost''" and w = started_world and dif = Medium]
    C9_storage_errors_shown_logged_or_replaced
      [where topicId = "''t1''" and e = "''null value violates not-null constraint''"
         and d = sample_database
         and tp = "\<lparr>topic_key = ''t1'', title = ''Arithmetic'', description = None\<rparr>"
         and genv = "sample_generation ''{}'' rejecting_storage" and questionData = "[]"
         and dif = Medium and qt = Mcq]
    sample_failures sample_reuse(5)
  by simp

text \<open>
  C9 as stated does not hold for the query of \<^verbatim>\<open>loadNextQuestion\<close>: its error reaches
  the console only, and a generated question is shown in place of the stored one. The
  writes of \<^verbatim>\<open>submitAnswer\<close> show nothing when all of them fail.
\<close>

theorem C9_swallowed_read_error_counterexample:
  "toasts (loadNextQuestion ''t1''
      (quiet_loading\<lparr>read_error := Some ''connection lost'',
                      generated := Generate_data (Some generated_sample)\<rparr>)
      Medium started_world) = []
   \<and> currentQuestion (view (loadNextQuestion ''t1''
      (quiet_loading\<lparr>read_error := Some ''connection lost'',
                      generated := Generate_data (Some generated_sample)\<rparr>)
      Medium started_world)) = Some generated_sample
   \<and> console (loadNextQuestion ''t1''
      (quiet_loading\<lparr>read_error := Some ''connection lost'',
                      generated := Generate_data (Some generated_sample)\<rparr>)
      Medium started_world) = [''Error loading question: connection lost'']
   \<and> toasts (submitAnswer
        \<lparr>answer_saved = False, counters_saved = False, difficulty_saved = False\<rparr>
        Grade_no_data (setUserAnswer ''4'' started_world)) = []"
  by code_simp

end
